theory Spec2Isabelle
  imports Main "HOL-Library.AList"
begin

section \<open>JavaScript values and strings\<close>

text \<open>
  The i18n loader (\<^verbatim>\<open>src/i18n.js\<close> and the two earlier versions of the same script kept in
  \<^verbatim>\<open>src/unnamed/part_000\<close>) works on dictionaries parsed from JSON. A value is what
  \<^verbatim>\<open>JSON.parse\<close> can return, plus \<^verbatim>\<open>undefined\<close>. An object is the list of its own
  properties (lookup takes the first entry of a key). A \<open>char\<close> stands for one UTF-16 code
  unit below 256. A number is only ever tested for truthiness here, so an integer stands
  for it.
\<close>

datatype jsval =
    Undefined
  | Null
  | Bool bool
  | Num int
  | Str string
  | Arr "jsval list"
  | Obj "(string \<times> jsval) list"

text \<open>Truthiness, as \<^verbatim>\<open>!v\<close>, \<^verbatim>\<open>a && b\<close> and \<^verbatim>\<open>a || b\<close> test it.\<close>

fun truthy :: "jsval \<Rightarrow> bool" where
  "truthy Undefined = False"
| "truthy Null = False"
| "truthy (Bool b) = b"
| "truthy (Num n) = (n \<noteq> 0)"
| "truthy (Str s) = (s \<noteq> [])"
| "truthy (Arr xs) = True"
| "truthy (Obj kvs) = True"

text \<open>\<^verbatim>\<open>d || {}\<close>\<close>

definition or_empty :: "jsval \<Rightarrow> jsval" where
  "or_empty d = (if truthy d then d else Obj [])"

text \<open>
  \<^verbatim>\<open>s.split(c)\<close> for a one-character separator: the pieces between the separators, at
  least one piece (\<^verbatim>\<open>''.split('.')\<close> is \<^verbatim>\<open>['']\<close>).
\<close>

fun js_split :: "char \<Rightarrow> string \<Rightarrow> string list" where
  "js_split c [] = [[]]"
| "js_split c (x # xs) =
     (if x = c then [] # js_split c xs
      else (case js_split c xs of
              [] \<Rightarrow> [[x]]
            | p # ps \<Rightarrow> (x # p) # ps))"

text \<open>
  \<^verbatim>\<open>s.trim()\<close> strips white space and line terminators at both ends; these are the ones
  among the code units below 256 (tab, LF, VT, FF, CR, space, no-break space).
\<close>

definition is_space :: "char \<Rightarrow> bool" where
  "is_space c = (c \<in> set [CHR 0x09, CHR 0x0A, CHR 0x0B, CHR 0x0C, CHR 0x0D, CHR 0x20, CHR 0xA0])"

definition trim :: "string \<Rightarrow> string" where
  "trim s = rev (dropWhile is_space (rev (dropWhile is_space s)))"

text \<open>
  Own properties. \<^verbatim>\<open>Object.prototype.hasOwnProperty.call(v, p)\<close> boxes a primitive: an
  object has its keys, an array and a string have \<^verbatim>\<open>length\<close> and their indices (written
  canonically: decimal digits, no leading zero), a number and a boolean have none. It is
  only called on truthy values (\<^verbatim>\<open>acc && ...\<close>), so the \<^verbatim>\<open>TypeError\<close> on
  \<^verbatim>\<open>null\<close> and \<^verbatim>\<open>undefined\<close> is never reached.
\<close>

definition is_digit :: "char \<Rightarrow> bool" where
  "is_digit c = (c \<in> set ''0123456789'')"

definition digit_val :: "char \<Rightarrow> nat" where
  "digit_val c = of_char c - 48"

definition array_index :: "string \<Rightarrow> nat option" where
  "array_index p =
     (if p = [] \<or> \<not> list_all is_digit p \<or> (hd p = CHR ''0'' \<and> 1 < length p) then None
      else Some (foldl (\<lambda>n c. 10 * n + digit_val c) 0 p))"

definition in_range :: "string \<Rightarrow> nat \<Rightarrow> bool" where
  "in_range p n = (case array_index p of None \<Rightarrow> False | Some i \<Rightarrow> i < n)"

fun hasOwnProperty :: "jsval \<Rightarrow> string \<Rightarrow> bool" where
  "hasOwnProperty (Obj kvs) p = (map_of kvs p \<noteq> None)"
| "hasOwnProperty (Arr xs) p = (p = ''length'' \<or> in_range p (length xs))"
| "hasOwnProperty (Str s) p = (p = ''length'' \<or> in_range p (length s))"
| "hasOwnProperty v p = False"

text \<open>\<^verbatim>\<open>v[p]\<close>, where \<^verbatim>\<open>v\<close> has the own property \<^verbatim>\<open>p\<close>.\<close>

fun get_prop :: "jsval \<Rightarrow> string \<Rightarrow> jsval" where
  "get_prop (Obj kvs) p = (case map_of kvs p of None \<Rightarrow> Undefined | Some v \<Rightarrow> v)"
| "get_prop (Arr xs) p =
     (if p = ''length'' then Num (int (length xs))
      else (case array_index p of
              None \<Rightarrow> Undefined
            | Some i \<Rightarrow> if i < length xs then xs ! i else Undefined))"
| "get_prop (Str s) p =
     (if p = ''length'' then Num (int (length s))
      else (case array_index p of
              None \<Rightarrow> Undefined
            | Some i \<Rightarrow> if i < length s then Str [s ! i] else Undefined))"
| "get_prop v p = Undefined"

section \<open>Key lookup\<close>

text \<open>
  \<^verbatim>\<open>getByPath\<close> (the same text in all three versions of the script):
  \<^verbatim>\<open>
  if (!obj || !path) return undefined;
  return path.split('.').reduce((acc, part) =>
    (acc && Object.prototype.hasOwnProperty.call(acc, part) ? acc[part] : undefined), obj);
  \<close>
\<close>

definition reducer :: "jsval \<Rightarrow> string \<Rightarrow> jsval" where
  "reducer acc part = (if truthy acc \<and> hasOwnProperty acc part then get_prop acc part else Undefined)"

definition getByPath :: "jsval \<Rightarrow> string \<Rightarrow> jsval" where
  "getByPath obj path =
     (if \<not> truthy obj \<or> path = [] then Undefined
      else foldl reducer obj (js_split CHR ''.'' path))"

text \<open>\<^verbatim>\<open>typeof v === 'string' && v.trim().length > 0\<close>, giving the string.\<close>

fun nonblank :: "jsval \<Rightarrow> string option" where
  "nonblank (Str v) = (if 0 < length (trim v) then Some v else None)"
| "nonblank v = None"

text \<open>
  \<^verbatim>\<open>resolve\<close>, the closure of \<^verbatim>\<open>applyTranslations(dict, fallbackDict)\<close>; \<open>None\<close> is
  \<^verbatim>\<open>undefined\<close>:
  \<^verbatim>\<open>
  if (!key) return undefined;
  const v = getByPath(dict, key);
  if (typeof v === 'string' && v.trim().length > 0) return v;
  if (fallbackDict) {
    const f = getByPath(fallbackDict, key);
    if (typeof f === 'string' && f.trim().length > 0) return f;
  }
  return undefined;
  \<close>
\<close>

definition resolve :: "jsval \<Rightarrow> jsval \<Rightarrow> string \<Rightarrow> string option" where
  "resolve dict fallbackDict key =
     (if key = [] then None
      else (case nonblank (getByPath dict key) of
              Some v \<Rightarrow> Some v
            | None \<Rightarrow>
                if truthy fallbackDict then nonblank (getByPath fallbackDict key) else None))"





section \<open>The page\<close>

text \<open>
  The document as the script sees it: the title, the \<^verbatim>\<open>lang\<close> attribute of the root
  element, and the elements in document order, an element handle being its position. An
  element has its tag, its attributes (the binding markers \<^verbatim>\<open>data-i18n\<close>,
  \<^verbatim>\<open>data-i18n-html\<close>, \<^verbatim>\<open>data-i18n-attr\<close> and \<^verbatim>\<open>data-set-lang\<close> among them) and its
  content: the markup it has (\<open>Html\<close>, what \<^verbatim>\<open>innerHTML\<close> assigns) or a single text
  (\<open>Text\<close>, what \<^verbatim>\<open>textContent\<close> assigns). Elements are taken as independent of each
  other: no bound element lies inside another one, and assigned markup brings no markers.
  Every assignment to the page is also kept in \<open>writes\<close>, in order.
\<close>

datatype content = Html string | Text string

record element =
  tag :: string
  attrs :: "(string \<times> string) list"
  content :: content

datatype dom_op =
    SetTitle string
  | SetLang string
  | SetText nat string
  | SetHtml nat string
  | SetAttr nat string string

record document =
  title :: string
  html_lang :: string
  elements :: "element list"
  writes :: "dom_op list"

definition getAttribute :: "element \<Rightarrow> string \<Rightarrow> string option" where
  "getAttribute el name = map_of (attrs el) name"

definition setAttribute :: "string \<Rightarrow> string \<Rightarrow> element \<Rightarrow> element" where
  "setAttribute name v el = el\<lparr>attrs := AList.update name v (attrs el)\<rparr>"

definition modify_element :: "nat \<Rightarrow> (element \<Rightarrow> element) \<Rightarrow> document \<Rightarrow> document" where
  "modify_element el g doc = doc\<lparr>elements := (elements doc)[el := g (elements doc ! el)]\<rparr>"

fun perform :: "dom_op \<Rightarrow> document \<Rightarrow> document" where
  "perform (SetTitle v) doc = doc\<lparr>title := v\<rparr>"
| "perform (SetLang v) doc = doc\<lparr>html_lang := v\<rparr>"
| "perform (SetText el v) doc = modify_element el (\<lambda>e. e\<lparr>content := Text v\<rparr>) doc"
| "perform (SetHtml el v) doc = modify_element el (\<lambda>e. e\<lparr>content := Html v\<rparr>) doc"
| "perform (SetAttr el name v) doc = modify_element el (setAttribute name v) doc"

definition dom_write :: "dom_op \<Rightarrow> document \<Rightarrow> document" where
  "dom_write w doc = (perform w doc)\<lparr>writes := writes doc @ [w]\<rparr>"

text \<open>\<^verbatim>\<open>document.querySelectorAll('[name]')\<close>: the handles of the elements with the attribute.\<close>

definition querySelectorAll :: "string \<Rightarrow> document \<Rightarrow> nat list" where
  "querySelectorAll name doc =
     filter (\<lambda>el. getAttribute (elements doc ! el) name \<noteq> None) [0..<length (elements doc)]"

text \<open>\<^verbatim>\<open>document.querySelector('meta[name="description"]')\<close>: the first such element, if any.\<close>

definition is_meta_description :: "element \<Rightarrow> bool" where
  "is_meta_description el = (tag el = ''meta'' \<and> getAttribute el ''name'' = Some ''description'')"

definition querySelector_meta :: "document \<Rightarrow> nat option" where
  "querySelector_meta doc =
     List.find (\<lambda>el. is_meta_description (elements doc ! el)) [0..<length (elements doc)]"

definition forEach :: "'a list \<Rightarrow> ('a \<Rightarrow> document \<Rightarrow> document) \<Rightarrow> document \<Rightarrow> document" where
  "forEach xs cb doc = foldl (\<lambda>d x. cb x d) doc xs"

section \<open>Applying a dictionary\<close>

text \<open>
  \<^verbatim>\<open>applyTranslations(dict, fallbackDict)\<close>, the same text in all three versions. The three
  callbacks first:
  \<^verbatim>\<open>
  const key = el.getAttribute('data-i18n');
  const value = resolve(key);
  if (typeof value === 'string') el.textContent = value;
  \<close>
  and the same with \<^verbatim>\<open>data-i18n-html\<close> and \<^verbatim>\<open>innerHTML\<close>.
\<close>

definition text_binding :: "jsval \<Rightarrow> jsval \<Rightarrow> nat \<Rightarrow> document \<Rightarrow> document" where
  "text_binding dict fallbackDict el doc =
     (case getAttribute (elements doc ! el) ''data-i18n'' of
        None \<Rightarrow> doc
      | Some key \<Rightarrow>
          (case resolve dict fallbackDict key of
             None \<Rightarrow> doc
           | Some v \<Rightarrow> dom_write (SetText el v) doc))"

definition html_binding :: "jsval \<Rightarrow> jsval \<Rightarrow> nat \<Rightarrow> document \<Rightarrow> document" where
  "html_binding dict fallbackDict el doc =
     (case getAttribute (elements doc ! el) ''data-i18n-html'' of
        None \<Rightarrow> doc
      | Some key \<Rightarrow>
          (case resolve dict fallbackDict key of
             None \<Rightarrow> doc
           | Some v \<Rightarrow> dom_write (SetHtml el v) doc))"

text \<open>
  \<^verbatim>\<open>
  const parts = pair.split(':');
  const attr = parts[0] && parts[0].trim();
  const key = parts[1] && parts[1].trim();
  if (!attr || !key) return;
  const value = resolve(key);
  if (typeof value === 'string') el.setAttribute(attr, value);
  \<close>
  \<open>part parts k\<close> is \<^verbatim>\<open>parts[k] && parts[k].trim()\<close>, the empty string standing for every
  falsy outcome (\<^verbatim>\<open>undefined\<close> when there is no such piece).
\<close>

definition part :: "string list \<Rightarrow> nat \<Rightarrow> string" where
  "part parts k = (if k < length parts \<and> parts ! k \<noteq> [] then trim (parts ! k) else [])"

definition attr_pair :: "jsval \<Rightarrow> jsval \<Rightarrow> nat \<Rightarrow> string \<Rightarrow> document \<Rightarrow> document" where
  "attr_pair dict fallbackDict el pair doc =
     (let parts = js_split CHR '':'' pair;
          attr = part parts 0;
          key = part parts 1
      in if attr = [] \<or> key = [] then doc
         else (case resolve dict fallbackDict key of
                 None \<Rightarrow> doc
               | Some v \<Rightarrow> dom_write (SetAttr el attr v) doc))"

text \<open>
  \<^verbatim>\<open>
  const spec = el.getAttribute('data-i18n-attr') || '';
  spec.split(';').map((s) => s.trim()).filter(Boolean).forEach((pair) => { ... });
  \<close>
\<close>

definition pairs_of :: "string \<Rightarrow> string list" where
  "pairs_of spec = filter (\<lambda>s. s \<noteq> []) (map trim (js_split CHR '';'' spec))"

definition attr_binding :: "jsval \<Rightarrow> jsval \<Rightarrow> nat \<Rightarrow> document \<Rightarrow> document" where
  "attr_binding dict fallbackDict el doc =
     (let spec = (case getAttribute (elements doc ! el) ''data-i18n-attr'' of
                    None \<Rightarrow> []
                  | Some s \<Rightarrow> s)
      in forEach (pairs_of spec) (attr_pair dict fallbackDict el) doc)"

definition apply_title :: "jsval \<Rightarrow> jsval \<Rightarrow> document \<Rightarrow> document" where
  "apply_title dict fallbackDict doc =
     (case resolve dict fallbackDict ''meta.title'' of
        None \<Rightarrow> doc
      | Some metaTitle \<Rightarrow> dom_write (SetTitle metaTitle) doc)"

definition apply_description :: "jsval \<Rightarrow> jsval \<Rightarrow> document \<Rightarrow> document" where
  "apply_description dict fallbackDict doc =
     (case resolve dict fallbackDict ''meta.description'' of
        None \<Rightarrow> doc
      | Some metaDesc \<Rightarrow>
          (case querySelector_meta doc of
             None \<Rightarrow> doc
           | Some meta \<Rightarrow> dom_write (SetAttr meta ''content'' metaDesc) doc))"

definition applyTranslations :: "jsval \<Rightarrow> jsval \<Rightarrow> document \<Rightarrow> document" where
  "applyTranslations dict fallbackDict doc =
     (let doc1 = apply_title dict fallbackDict doc;
          doc2 = apply_description dict fallbackDict doc1;
          doc3 = forEach (querySelectorAll ''data-i18n'' doc2) (text_binding dict fallbackDict) doc2;
          doc4 = forEach (querySelectorAll ''data-i18n-html'' doc3) (html_binding dict fallbackDict) doc3
      in forEach (querySelectorAll ''data-i18n-attr'' doc4) (attr_binding dict fallbackDict) doc4)"

section \<open>What one call does to an element\<close>

text \<open>
  Each callback of \<open>applyTranslations\<close> reads and changes only the element it is called on.
  These functions give, for an element, the element a callback leaves and the assignments
  it makes; \<open>local_cb\<close> says that a callback is such a function at its handle.
\<close>

definition text_el :: "jsval \<Rightarrow> jsval \<Rightarrow> element \<Rightarrow> element" where
  "text_el d f e =
     (case getAttribute e ''data-i18n'' of
        None \<Rightarrow> e
      | Some key \<Rightarrow> (case resolve d f key of None \<Rightarrow> e | Some v \<Rightarrow> e\<lparr>content := Text v\<rparr>))"

definition text_ops :: "jsval \<Rightarrow> jsval \<Rightarrow> nat \<Rightarrow> element \<Rightarrow> dom_op list" where
  "text_ops d f el e =
     (case getAttribute e ''data-i18n'' of
        None \<Rightarrow> []
      | Some key \<Rightarrow> (case resolve d f key of None \<Rightarrow> [] | Some v \<Rightarrow> [SetText el v]))"

definition html_el :: "jsval \<Rightarrow> jsval \<Rightarrow> element \<Rightarrow> element" where
  "html_el d f e =
     (case getAttribute e ''data-i18n-html'' of
        None \<Rightarrow> e
      | Some key \<Rightarrow> (case resolve d f key of None \<Rightarrow> e | Some v \<Rightarrow> e\<lparr>content := Html v\<rparr>))"

definition html_ops :: "jsval \<Rightarrow> jsval \<Rightarrow> nat \<Rightarrow> element \<Rightarrow> dom_op list" where
  "html_ops d f el e =
     (case getAttribute e ''data-i18n-html'' of
        None \<Rightarrow> []
      | Some key \<Rightarrow> (case resolve d f key of None \<Rightarrow> [] | Some v \<Rightarrow> [SetHtml el v]))"

text \<open>The value of the \<^verbatim>\<open>data-i18n-attr\<close> marker, \<^verbatim>\<open>getAttribute(...) || ''\<close>.\<close>

definition marker :: "element \<Rightarrow> string" where
  "marker e = (case getAttribute e ''data-i18n-attr'' of None \<Rightarrow> [] | Some s \<Rightarrow> s)"

definition pair_el :: "jsval \<Rightarrow> jsval \<Rightarrow> string \<Rightarrow> element \<Rightarrow> element" where
  "pair_el d f pair e =
     (let parts = js_split CHR '':'' pair; attr = part parts 0; key = part parts 1
      in if attr = [] \<or> key = [] then e
         else (case resolve d f key of None \<Rightarrow> e | Some v \<Rightarrow> setAttribute attr v e))"

definition pair_ops :: "jsval \<Rightarrow> jsval \<Rightarrow> nat \<Rightarrow> string \<Rightarrow> dom_op list" where
  "pair_ops d f el pair =
     (let parts = js_split CHR '':'' pair; attr = part parts 0; key = part parts 1
      in if attr = [] \<or> key = [] then []
         else (case resolve d f key of None \<Rightarrow> [] | Some v \<Rightarrow> [SetAttr el attr v]))"

definition attr_el :: "jsval \<Rightarrow> jsval \<Rightarrow> element \<Rightarrow> element" where
  "attr_el d f e = foldl (\<lambda>e pair. pair_el d f pair e) e (pairs_of (marker e))"

definition attr_ops :: "jsval \<Rightarrow> jsval \<Rightarrow> nat \<Rightarrow> element \<Rightarrow> dom_op list" where
  "attr_ops d f el e = concat (map (pair_ops d f el) (pairs_of (marker e)))"

definition local_cb ::
  "(nat \<Rightarrow> document \<Rightarrow> document) \<Rightarrow> (element \<Rightarrow> element) \<Rightarrow> (nat \<Rightarrow> element \<Rightarrow> dom_op list) \<Rightarrow> bool" where
  "local_cb cb g ops =
     (\<forall>el doc. el < length (elements doc) \<longrightarrow>
        cb el doc = doc\<lparr>elements := (elements doc)[el := g (elements doc ! el)],
                       writes := writes doc @ ops el (elements doc ! el)\<rparr>)"

definition all_ops :: "(nat \<Rightarrow> element \<Rightarrow> dom_op list) \<Rightarrow> element list \<Rightarrow> dom_op list" where
  "all_ops ops es = concat (map (\<lambda>el. ops el (es ! el)) [0..<length es])"

text \<open>What the first two steps (title and description) assign, and the document after them.\<close>

definition title_ops :: "jsval \<Rightarrow> jsval \<Rightarrow> dom_op list" where
  "title_ops d f = (case resolve d f ''meta.title'' of None \<Rightarrow> [] | Some v \<Rightarrow> [SetTitle v])"

definition description_ops :: "jsval \<Rightarrow> jsval \<Rightarrow> document \<Rightarrow> dom_op list" where
  "description_ops d f doc =
     (case resolve d f ''meta.description'' of
        None \<Rightarrow> []
      | Some v \<Rightarrow> (case querySelector_meta doc of None \<Rightarrow> [] | Some m \<Rightarrow> [SetAttr m ''content'' v]))"

definition after_head :: "jsval \<Rightarrow> jsval \<Rightarrow> document \<Rightarrow> document" where
  "after_head d f doc = apply_description d f (apply_title d f doc)"

section \<open>Bindings, as the markup declares them\<close>


definition binding_pairs :: "string \<Rightarrow> (string \<times> string) list" where
  "binding_pairs spec =
     concat (map (\<lambda>piece. case js_split CHR '':'' piece of
                            a # k # rest \<Rightarrow> if trim a \<noteq> [] \<and> trim k \<noteq> [] then [(trim a, trim k)] else []
                          | _ \<Rightarrow> [])
               (filter (\<lambda>s. s \<noteq> []) (map trim (js_split CHR '';'' spec))))"

definition resolved_pairs :: "jsval \<Rightarrow> jsval \<Rightarrow> string \<Rightarrow> (string \<times> string) list" where
  "resolved_pairs d f spec =
     concat (map (\<lambda>(a, k). case resolve d f k of None \<Rightarrow> [] | Some v \<Rightarrow> [(a, v)])
               (binding_pairs spec))"

text \<open>The keys the markup binds to the target of an assignment.\<close>

definition text_keys :: "element \<Rightarrow> string list" where
  "text_keys e = (case getAttribute e ''data-i18n'' of None \<Rightarrow> [] | Some k \<Rightarrow> [k])"

definition html_keys :: "element \<Rightarrow> string list" where
  "html_keys e = (case getAttribute e ''data-i18n-html'' of None \<Rightarrow> [] | Some k \<Rightarrow> [k])"

definition attr_keys :: "document \<Rightarrow> nat \<Rightarrow> string \<Rightarrow> string list" where
  "attr_keys doc el a =
     (if querySelector_meta doc = Some el \<and> a = ''content'' then [''meta.description''] else []) @
     map snd (filter (\<lambda>(a', k). a' = a) (binding_pairs (marker (elements doc ! el))))"

fun binding_keys :: "document \<Rightarrow> dom_op \<Rightarrow> string list" where
  "binding_keys doc (SetTitle v) = [''meta.title'']"
| "binding_keys doc (SetLang v) = []"
| "binding_keys doc (SetText el v) = text_keys (elements doc ! el)"
| "binding_keys doc (SetHtml el v) = html_keys (elements doc ! el)"
| "binding_keys doc (SetAttr el a v) = attr_keys doc el a"

fun op_value :: "dom_op \<Rightarrow> string" where
  "op_value (SetTitle v) = v"
| "op_value (SetLang v) = v"
| "op_value (SetText el v) = v"
| "op_value (SetHtml el v) = v"
| "op_value (SetAttr el a v) = v"

text \<open>
  \<open>found d f key v\<close>: the string \<open>v\<close> is not blank and is the value at the path \<open>key\<close> in
  the primary dictionary or, when that one has no such string, in the fallback.
\<close>

definition found :: "jsval \<Rightarrow> jsval \<Rightarrow> string \<Rightarrow> string \<Rightarrow> bool" where
  "found d f key v =
     (0 < length (trim v) \<and>
      (getByPath d key = Str v \<or> (nonblank (getByPath d key) = None \<and> getByPath f key = Str v)))"

definition from_dictionary :: "jsval \<Rightarrow> jsval \<Rightarrow> document \<Rightarrow> dom_op \<Rightarrow> bool" where
  "from_dictionary d f doc w = (\<exists>key \<in> set (binding_keys doc w). key \<noteq> [] \<and> found d f key (op_value w))"

section \<open>A page and two dictionaries\<close>

text \<open>
  A small page with the kinds of element the script looks for, and a Hungarian and
  an Italian dictionary; the Italian one lacks the description and the introduction and
  has a blank tooltip.
\<close>

definition dict_hu :: jsval where
  "dict_hu = Obj [(''meta'', Obj [(''title'', Str ''Olasz verseny''), (''description'', Str ''Leiras'')]),
                  (''form'', Obj [(''name'', Str ''Nev''), (''tooltip'', Str ''Segitseg'')]),
                  (''intro'', Str ''<b>Szia</b>'')]"

definition dict_it :: jsval where
  "dict_it = Obj [(''meta'', Obj [(''title'', Str ''Gara'')]),
                  (''form'', Obj [(''name'', Str ''Nome''), (''tooltip'', Str '' '')])]"

definition page :: document where
  "page = \<lparr>title = ''SZTE'', html_lang = ''hu'',
            elements =
              [\<lparr>tag = ''meta'', attrs = [(''name'', ''description''), (''content'', ''old'')], content = Html []\<rparr>,
               \<lparr>tag = ''h1'', attrs = [(''data-i18n'', ''meta.title'')], content = Html ''Cim''\<rparr>,
               \<lparr>tag = ''p'', attrs = [(''data-i18n-html'', ''intro'')], content = Html ''<i>x</i>''\<rparr>,
               \<lparr>tag = ''input'',
                attrs = [(''data-i18n-attr'', ''placeholder:form.name; title:form.tooltip; broken''),
                         (''placeholder'', ''?'')],
                content = Html []\<rparr>,
               \<lparr>tag = ''span'', attrs = [(''data-i18n'', ''no.such.key'')], content = Html ''keep''\<rparr>,
               \<lparr>tag = ''button'', attrs = [(''data-set-lang'', ''hu'')], content = Html ''HU''\<rparr>,
               \<lparr>tag = ''button'', attrs = [(''data-set-lang'', ''it'')], content = Html ''IT''\<rparr>,
               \<lparr>tag = ''a'', attrs = [(''data-i18n-attr'', ''title:no.such.key''), (''title'', ''old'')],
                content = Html ''link''\<rparr>],
            writes = []\<rparr>"

section \<open>The script's state and its environment\<close>

text \<open>
  What the script keeps and changes: the \<^verbatim>\<open>localStorage\<close> entries, the document, the
  console, the two variables \<^verbatim>\<open>__lastDict\<close> and \<^verbatim>\<open>__lastFallback\<close> (\<^verbatim>\<open>null\<close> at first),
  and whether \<^verbatim>\<open>window.i18n.refresh\<close> and \<^verbatim>\<open>window.i18n.setLang\<close> exist. \<open>applied\<close>
  keeps, in order, the arguments of every call of \<^verbatim>\<open>applyTranslations\<close>.

  What the script cannot decide is the environment of a call: the outcome of a fetch of a
  URL (no response at all, or a response with its status and with its body parsed as JSON,
  if it parses), whether the storage and the assignment to \<^verbatim>\<open>window\<close> throw, and the
  path of the page.
\<close>

datatype level = LOG | DEBUG | WARN | ERROR

datatype exn =
    StorageError
  | NetworkError string
  | HttpError string nat
  | JsonError string
  | AssignError

datatype response = Response nat "jsval option"

record env =
  fetch :: "string \<Rightarrow> response option"
  setItem_throws :: bool
  getItem_throws :: bool
  assign_throws :: bool
  pathname :: string

record state =
  localStorage :: "(string \<times> string) list"
  dom :: document
  console :: "(level \<times> string \<times> string \<times> exn option) list"
  lastDict :: jsval
  lastFallback :: jsval
  has_refresh :: bool
  has_setLang :: bool
  applied :: "(jsval \<times> jsval) list"

definition STORAGE_KEY :: string where
  "STORAGE_KEY = ''lang''"

definition DEFAULT_LANG :: string where
  "DEFAULT_LANG = ''hu''"

definition SUPPORTED :: "string set" where
  "SUPPORTED = {''hu'', ''it''}"

text \<open>
  A statement runs from a state and either returns a value (\<open>Inr\<close>) or throws (\<open>Inl\<close>),
  in both cases with the state it leaves. \<open>js_bind\<close> is sequencing (a throw skips the
  rest), \<open>js_try m h\<close> is \<^verbatim>\<open>try { m } catch (e) { h e }\<close>. An \<^verbatim>\<open>await\<close> is sequencing too:
  one call of \<^verbatim>\<open>setLang\<close> is followed from its start to its end.
\<close>

type_synonym 'a js = "state \<Rightarrow> (exn + 'a) \<times> state"

definition js_return :: "'a \<Rightarrow> 'a js" where
  "js_return x s = (Inr x, s)"

definition js_throw :: "exn \<Rightarrow> 'a js" where
  "js_throw e s = (Inl e, s)"

definition js_bind :: "'a js \<Rightarrow> ('a \<Rightarrow> 'b js) \<Rightarrow> 'b js" where
  "js_bind m k s = (case m s of (Inl e, s') \<Rightarrow> (Inl e, s') | (Inr x, s') \<Rightarrow> k x s')"

definition js_seq :: "unit js \<Rightarrow> 'b js \<Rightarrow> 'b js" where
  "js_seq m n = js_bind m (\<lambda>u. n)"

definition js_try :: "'a js \<Rightarrow> (exn \<Rightarrow> 'a js) \<Rightarrow> 'a js" where
  "js_try m h s = (case m s of (Inl e, s') \<Rightarrow> h e s' | (Inr x, s') \<Rightarrow> (Inr x, s'))"

definition js_modify :: "(state \<Rightarrow> state) \<Rightarrow> unit js" where
  "js_modify g s = (Inr (), g s)"

definition js_get :: "(state \<Rightarrow> 'a) \<Rightarrow> 'a js" where
  "js_get g s = (Inr (g s), s)"

text \<open>\<^verbatim>\<open>console.log\<close>, \<^verbatim>\<open>.debug\<close>, \<^verbatim>\<open>.warn\<close>, \<^verbatim>\<open>.error\<close>: the text, a string argument, an error.\<close>

definition console_out :: "level \<Rightarrow> string \<Rightarrow> string \<Rightarrow> exn option \<Rightarrow> unit js" where
  "console_out lv msg arg err = js_modify (\<lambda>s. s\<lparr>console := console s @ [(lv, msg, arg, err)]\<rparr>)"

definition setItem :: "env \<Rightarrow> string \<Rightarrow> string \<Rightarrow> unit js" where
  "setItem env k v =
     (if setItem_throws env then js_throw StorageError
      else js_modify (\<lambda>s. s\<lparr>localStorage := AList.update k v (localStorage s)\<rparr>))"

definition getItem :: "env \<Rightarrow> string \<Rightarrow> string option js" where
  "getItem env k =
     (if getItem_throws env then js_throw StorageError
      else js_get (\<lambda>s. map_of (localStorage s) k))"

text \<open>
  \<^verbatim>\<open>fetchJson\<close> (the same text in all three versions):
  \<^verbatim>\<open>
  const res = await fetch(url, { cache: 'no-store' });
  if (!res.ok) throw new Error(`Failed to load ${url}: HTTP ${res.status}`);
  return res.json();
  \<close>
  \<^verbatim>\<open>fetch\<close> rejects when there is no response, \<^verbatim>\<open>res.ok\<close> is a status from 200 to 299,
  \<^verbatim>\<open>res.json()\<close> rejects when the body does not parse.
\<close>

definition fetchJson :: "env \<Rightarrow> string \<Rightarrow> jsval js" where
  "fetchJson env url =
     (case fetch env url of
        None \<Rightarrow> js_throw (NetworkError url)
      | Some (Response status body) \<Rightarrow>
          if \<not> (200 \<le> status \<and> status \<le> 299) then js_throw (HttpError url status)
          else (case body of
                  None \<Rightarrow> js_throw (JsonError url)
                | Some v \<Rightarrow> js_return v))"

text \<open>A call of \<^verbatim>\<open>applyTranslations(d, f)\<close> as a statement.\<close>

definition call_applyTranslations :: "jsval \<Rightarrow> jsval \<Rightarrow> unit js" where
  "call_applyTranslations d f =
     js_modify (\<lambda>s. s\<lparr>dom := applyTranslations d f (dom s), applied := applied s @ [(d, f)]\<rparr>)"

section \<open>The initial language\<close>

text \<open>
  \<^verbatim>\<open>getInitialLang\<close> (the same text in all three versions):
  \<^verbatim>\<open>
  try {
    const saved = localStorage.getItem(STORAGE_KEY);
    if (saved && SUPPORTED.has(saved)) return saved;
  } catch (e) { /* ignore storage errors */ }
  const docLang = document.documentElement && document.documentElement.lang;
  if (docLang && SUPPORTED.has(docLang)) return docLang;
  return DEFAULT_LANG;
  \<close>
  The \<^verbatim>\<open>try\<close> block gives \<open>Some\<close> of the value it returns from the function, or \<open>None\<close>
  when it falls through. A document has its root element.
\<close>

definition getInitialLang :: "env \<Rightarrow> string js" where
  "getInitialLang env =
     js_bind
       (js_try
          (js_bind (getItem env STORAGE_KEY)
             (\<lambda>saved. js_return
                (case saved of
                   None \<Rightarrow> None
                 | Some c \<Rightarrow> if c \<noteq> [] \<and> c \<in> SUPPORTED then Some c else None)))
          (\<lambda>e. js_return None))
       (\<lambda>returned.
          case returned of
            Some c \<Rightarrow> js_return c
          | None \<Rightarrow>
              js_bind (js_get (\<lambda>s. html_lang (dom s)))
                (\<lambda>docLang.
                   if docLang \<noteq> [] \<and> docLang \<in> SUPPORTED then js_return docLang
                   else js_return DEFAULT_LANG))"

section \<open>Switching the language\<close>

text \<open>
  \<^verbatim>\<open>updateLangUi\<close> (in all three versions):
  \<^verbatim>\<open>
  if (!lang) return;
  document.documentElement.lang = lang;
  document.querySelectorAll('[data-set-lang]').forEach((btn) => {
    const isActive = btn.getAttribute('data-set-lang') === lang;
    btn.setAttribute('aria-pressed', isActive ? 'true' : 'false');
  });
  \<close>
\<close>

definition press :: "string \<Rightarrow> nat \<Rightarrow> document \<Rightarrow> document" where
  "press lang btn doc =
     (let isActive = (getAttribute (elements doc ! btn) ''data-set-lang'' = Some lang)
      in dom_write (SetAttr btn ''aria-pressed'' (if isActive then ''true'' else ''false'')) doc)"

definition updateLangUi :: "string \<Rightarrow> document \<Rightarrow> document" where
  "updateLangUi lang doc =
     (if lang = [] then doc
      else (let doc1 = dom_write (SetLang lang) doc
            in forEach (querySelectorAll ''data-set-lang'' doc1) (press lang) doc1))"

text \<open>
  The start of \<^verbatim>\<open>setLang\<close>, the same in all three versions:
  \<^verbatim>\<open>
  console.log('[i18n] setLang()', lang);
  if (!SUPPORTED.has(lang)) lang = DEFAULT_LANG;
  try { localStorage.setItem(STORAGE_KEY, lang); } catch (e) { }
  updateLangUi(lang);
  \<close>
\<close>

definition normalize :: "string \<Rightarrow> string" where
  "normalize lang = (if lang \<in> SUPPORTED then lang else DEFAULT_LANG)"

definition persist_and_mark :: "env \<Rightarrow> string \<Rightarrow> unit js" where
  "persist_and_mark env lang =
     js_seq (js_try (setItem env STORAGE_KEY lang) (\<lambda>e. js_return ()))
       (js_modify (\<lambda>s. s\<lparr>dom := updateLangUi lang (dom s)\<rparr>))"

text \<open>
  The end of the successful path, in \<^verbatim>\<open>src/i18n.js\<close> and in the second script of
  \<^verbatim>\<open>part_000\<close>:
  \<^verbatim>\<open>
  applyTranslations(dict || {}, fallbackDict || {});
  __lastDict = dict || {};
  __lastFallback = fallbackDict || {};
  try {
    window.i18n = window.i18n || {};
    window.i18n.refresh = () => applyTranslations(__lastDict || {}, __lastFallback || {});
    window.i18n.setLang = (l) => setLang(l);
  } catch (e) { }
  console.debug('[i18n] translations applied for', lang);
  \<close>
\<close>

definition install_api :: "env \<Rightarrow> unit js" where
  "install_api env =
     (if assign_throws env then js_throw AssignError
      else js_modify (\<lambda>s. s\<lparr>has_refresh := True, has_setLang := True\<rparr>))"

definition apply_and_expose :: "env \<Rightarrow> string \<Rightarrow> jsval \<Rightarrow> jsval \<Rightarrow> unit js" where
  "apply_and_expose env lang dict fallbackDict =
     js_seq (call_applyTranslations (or_empty dict) (or_empty fallbackDict))
    (js_seq (js_modify (\<lambda>s. s\<lparr>lastDict := or_empty dict, lastFallback := or_empty fallbackDict\<rparr>))
    (js_seq (js_try (install_api env) (\<lambda>e. js_return ()))
            (console_out DEBUG ''[i18n] translations applied for'' lang None)))"

text \<open>\<^verbatim>\<open>window.i18n.refresh()\<close>, once it exists.\<close>

definition refresh :: "unit js" where
  "refresh =
     js_bind (js_get (\<lambda>s. (or_empty (lastDict s), or_empty (lastFallback s))))
       (\<lambda>(d, f). call_applyTranslations d f)"

subsection \<open>\<^verbatim>\<open>src/i18n.js\<close>: several base paths\<close>

text \<open>
  \<^verbatim>\<open>getI18nBasePath\<close> of \<^verbatim>\<open>src/i18n.js\<close> returns \<^verbatim>\<open>'./i18n/'\<close> (its \<^verbatim>\<open>try\<close> block cannot
  throw), and \<^verbatim>\<open>bases = [getI18nBasePath(), './', '/i18n/']\<close>.
\<close>

definition getI18nBasePath :: string where
  "getI18nBasePath = ''./i18n/''"

definition bases :: "string list" where
  "bases = [getI18nBasePath, ''./'', ''/i18n/'']"

text \<open>
  The first loop; it gives \<^verbatim>\<open>dict\<close> and \<^verbatim>\<open>firstErr\<close>:
  \<^verbatim>\<open>
  for (const b of bases) {
    const dictUrl = `${b}${lang}.json`;
    try { dict = await fetchJson(dictUrl); dictBase = b; console.debug(...); break; }
    catch (e) { if (!firstErr) firstErr = e; console.warn('[i18n] fetch failed', dictUrl, e); }
  }
  \<close>
\<close>

fun fetch_dict :: "env \<Rightarrow> string list \<Rightarrow> string \<Rightarrow> exn option \<Rightarrow> (jsval \<times> exn option) js" where
  "fetch_dict env [] lang firstErr = js_return (Null, firstErr)"
| "fetch_dict env (b # bs) lang firstErr =
     js_bind
       (js_try
          (js_bind (fetchJson env (b @ lang @ ''.json''))
             (\<lambda>dict. js_seq (console_out DEBUG ''[i18n] fetched'' (b @ lang @ ''.json'') None)
                        (js_return (Some dict, firstErr))))
          (\<lambda>e. js_seq (console_out WARN ''[i18n] fetch failed'' (b @ lang @ ''.json'') (Some e))
                  (js_return (None, if firstErr = None then Some e else firstErr))))
       (\<lambda>(found_dict, firstErr').
          case found_dict of
            Some dict \<Rightarrow> js_return (dict, firstErr')
          | None \<Rightarrow> fetch_dict env bs lang firstErr')"

text \<open>
  The loop of the failing path; it gives \<^verbatim>\<open>fallbackLoaded\<close>:
  \<^verbatim>\<open>
  for (const b of bases) {
    const defUrl = `${b}${DEFAULT_LANG}.json`;
    try {
      const baseDict = await fetchJson(defUrl);
      applyTranslations(baseDict || {}, {});
      fallbackLoaded = true;
      console.debug('[i18n] applied default translations from', defUrl);
      break;
    } catch (e) { console.warn('[i18n] fallback fetch failed', defUrl, e); }
  }
  \<close>
\<close>

fun apply_default :: "env \<Rightarrow> string list \<Rightarrow> bool js" where
  "apply_default env [] = js_return False"
| "apply_default env (b # bs) =
     js_bind
       (js_try
          (js_bind (fetchJson env (b @ DEFAULT_LANG @ ''.json''))
             (\<lambda>baseDict.
                js_seq (call_applyTranslations (or_empty baseDict) (Obj []))
               (js_seq (console_out DEBUG ''[i18n] applied default translations from''
                          (b @ DEFAULT_LANG @ ''.json'') None)
                       (js_return True))))
          (\<lambda>e. js_seq (console_out WARN ''[i18n] fallback fetch failed''
                         (b @ DEFAULT_LANG @ ''.json'') (Some e))
                  (js_return False)))
       (\<lambda>fallbackLoaded. if fallbackLoaded then js_return True else apply_default env bs)"

text \<open>
  The loop of the successful path; it gives \<^verbatim>\<open>fallbackDict\<close>:
  \<^verbatim>\<open>
  for (const b of bases) {
    const fallbackUrl = `${b}${DEFAULT_LANG}.json`;
    try { fallbackDict = await fetchJson(fallbackUrl); console.debug(...); break; }
    catch (e) { console.warn('[i18n] fetch failed fallback', fallbackUrl, e); }
  }
  \<close>
\<close>

fun fetch_fallback :: "env \<Rightarrow> string list \<Rightarrow> jsval js" where
  "fetch_fallback env [] = js_return Null"
| "fetch_fallback env (b # bs) =
     js_bind
       (js_try
          (js_bind (fetchJson env (b @ DEFAULT_LANG @ ''.json''))
             (\<lambda>fallbackDict.
                js_seq (console_out DEBUG ''[i18n] fetched fallback'' (b @ DEFAULT_LANG @ ''.json'') None)
                  (js_return (Some fallbackDict))))
          (\<lambda>e. js_seq (console_out WARN ''[i18n] fetch failed fallback''
                         (b @ DEFAULT_LANG @ ''.json'') (Some e))
                  (js_return None)))
       (\<lambda>found_dict.
          case found_dict of
            Some fallbackDict \<Rightarrow> js_return fallbackDict
          | None \<Rightarrow> fetch_fallback env bs)"

text \<open>
  \<^verbatim>\<open>setLang\<close> of \<^verbatim>\<open>src/i18n.js\<close>, after its start:
  \<^verbatim>\<open>
  if (!dict) {
    console.error('[i18n] failed to load any language file for', lang, firstErr);
    if (lang !== DEFAULT_LANG) {
      let fallbackLoaded = false;
      for (...) { ... }
      if (!fallbackLoaded) console.warn('[i18n] could not load any default translations');
    }
    return;
  }
  let fallbackDict = null;
  if (lang !== DEFAULT_LANG) {
    for (...) { ... }
    if (!fallbackDict) console.warn('[i18n] could not load fallback language');
  }
  applyTranslations(dict || {}, fallbackDict || {});
  ...
  \<close>
\<close>

definition setLang :: "env \<Rightarrow> string \<Rightarrow> unit js" where
  "setLang env requested =
     js_seq (console_out LOG ''[i18n] setLang()'' requested None)
       (let lang = normalize requested in
        js_seq (persist_and_mark env lang)
          (js_bind (fetch_dict env bases lang None)
             (\<lambda>(dict, firstErr).
                if \<not> truthy dict then
                  js_seq (console_out ERROR ''[i18n] failed to load any language file for'' lang firstErr)
                    (if lang \<noteq> DEFAULT_LANG then
                       js_bind (apply_default env bases)
                         (\<lambda>fallbackLoaded.
                            if \<not> fallbackLoaded
                            then console_out WARN ''[i18n] could not load any default translations'' [] None
                            else js_return ())
                     else js_return ())
                else
                  js_bind
                    (if lang \<noteq> DEFAULT_LANG then
                       js_bind (fetch_fallback env bases)
                         (\<lambda>fallbackDict.
                            js_seq
                              (if \<not> truthy fallbackDict
                               then console_out WARN ''[i18n] could not load fallback language'' [] None
                               else js_return ())
                              (js_return fallbackDict))
                     else js_return Null)
                    (\<lambda>fallbackDict. apply_and_expose env lang dict fallbackDict))))"

subsection \<open>First script of \<^verbatim>\<open>part_000\<close>: the fixed path \<^verbatim>\<open>i18n/\<close>\<close>

text \<open>
  \<^verbatim>\<open>
  try {
    const dict = await fetchJson(`i18n/${lang}.json`);
    console.debug('[i18n] fetched', `i18n/${lang}.json`);
    let fallbackDict = null;
    if (lang !== DEFAULT_LANG) {
      try { fallbackDict = await fetchJson(`i18n/${DEFAULT_LANG}.json`); console.debug(...); }
      catch (e) { console.warn('[i18n] could not load fallback language', e); }
    }
    applyTranslations(dict || {}, fallbackDict || {});
    console.debug('[i18n] translations applied for', lang);
  } catch (err) {
    console.error('[i18n] failed to load', lang, err);
    if (lang !== DEFAULT_LANG) {
      try {
        const base = await fetchJson(`i18n/${DEFAULT_LANG}.json`);
        applyTranslations(base || {}, {});
      } catch (e) { console.warn('[i18n] could not load default translations', e); }
    }
  }
  \<close>
  This version has no \<^verbatim>\<open>__lastDict\<close> and installs nothing on \<^verbatim>\<open>window\<close>.
\<close>

definition fetch_fallback_at :: "env \<Rightarrow> string \<Rightarrow> jsval js" where
  "fetch_fallback_at env base =
     js_try
       (js_bind (fetchJson env (base @ DEFAULT_LANG @ ''.json''))
          (\<lambda>fallbackDict.
             js_seq (console_out DEBUG ''[i18n] fetched fallback'' (base @ DEFAULT_LANG @ ''.json'') None)
               (js_return fallbackDict)))
       (\<lambda>e. js_seq (console_out WARN ''[i18n] could not load fallback language'' [] (Some e))
               (js_return Null))"

definition apply_default_at :: "env \<Rightarrow> string \<Rightarrow> string \<Rightarrow> exn \<Rightarrow> unit js" where
  "apply_default_at env base lang err =
     js_seq (console_out ERROR ''[i18n] failed to load'' lang (Some err))
       (if lang \<noteq> DEFAULT_LANG then
          js_try
            (js_bind (fetchJson env (base @ DEFAULT_LANG @ ''.json''))
               (\<lambda>baseDict. call_applyTranslations (or_empty baseDict) (Obj [])))
            (\<lambda>e. console_out WARN ''[i18n] could not load default translations'' [] (Some e))
        else js_return ())"

definition setLang_fixed :: "env \<Rightarrow> string \<Rightarrow> unit js" where
  "setLang_fixed env requested =
     js_seq (console_out LOG ''[i18n] setLang()'' requested None)
       (let lang = normalize requested in
        js_seq (persist_and_mark env lang)
          (js_try
             (js_bind (fetchJson env (''i18n/'' @ lang @ ''.json''))
                (\<lambda>dict.
                   js_seq (console_out DEBUG ''[i18n] fetched'' (''i18n/'' @ lang @ ''.json'') None)
                     (js_bind
                        (if lang \<noteq> DEFAULT_LANG then fetch_fallback_at env ''i18n/''
                         else js_return Null)
                        (\<lambda>fallbackDict.
                           js_seq (call_applyTranslations (or_empty dict) (or_empty fallbackDict))
                             (console_out DEBUG ''[i18n] translations applied for'' lang None)))))
             (apply_default_at env ''i18n/'' lang)))"

subsection \<open>Second script of \<^verbatim>\<open>part_000\<close>: the base path from the page's path\<close>



section \<open>Outcomes of a switch\<close>

text \<open>
  The dictionary a fetch of a URL yields, \<open>None\<close> when the fetch fails (no response, a
  status outside 200 to 299, a body that is not JSON), and the first dictionary a list of
  URLs yields.
\<close>

definition ok_body :: "env \<Rightarrow> string \<Rightarrow> jsval option" where
  "ok_body env url =
     (case fetch env url of
        None \<Rightarrow> None
      | Some (Response status body) \<Rightarrow> if 200 \<le> status \<and> status \<le> 299 then body else None)"

fun first_ok :: "env \<Rightarrow> string list \<Rightarrow> jsval option" where
  "first_ok env [] = None"
| "first_ok env (u # us) = (case ok_body env u of Some v \<Rightarrow> Some v | None \<Rightarrow> first_ok env us)"

definition urls :: "string \<Rightarrow> string list" where
  "urls lang = map (\<lambda>b. b @ lang @ ''.json'') bases"

text \<open>
  The three outcomes the specification names for a switch to a language: no dictionary,
  the default dictionary alone (applied as the primary, with an empty fallback), or the
  language's dictionary with its fallback.
\<close>

datatype outcome = NoDictionary | FallbackOnly jsval | Loaded jsval jsval

definition default_only :: "jsval option \<Rightarrow> string \<Rightarrow> outcome" where
  "default_only dflt lang =
     (if lang \<noteq> DEFAULT_LANG
      then (case dflt of None \<Rightarrow> NoDictionary | Some d \<Rightarrow> FallbackOnly (or_empty d))
      else NoDictionary)"

definition loaded_with :: "jsval \<Rightarrow> jsval option \<Rightarrow> string \<Rightarrow> outcome" where
  "loaded_with dict dflt lang =
     Loaded (or_empty dict)
       (if lang \<noteq> DEFAULT_LANG
        then (case dflt of None \<Rightarrow> Obj [] | Some f \<Rightarrow> or_empty f)
        else Obj [])"

text \<open>
  The outcome for \<^verbatim>\<open>src/i18n.js\<close>, where a dictionary is looked for under each base in
  turn and a first answer that is falsy (\<^verbatim>\<open>null\<close>, say) counts as none; and the outcome for
  the two scripts of \<^verbatim>\<open>part_000\<close>, which fetch under one base.
\<close>

definition outcome :: "env \<Rightarrow> string \<Rightarrow> outcome" where
  "outcome env lang =
     (case first_ok env (urls lang) of
        None \<Rightarrow> default_only (first_ok env (urls DEFAULT_LANG)) lang
      | Some dict \<Rightarrow>
          if truthy dict then loaded_with dict (first_ok env (urls DEFAULT_LANG)) lang
          else default_only (first_ok env (urls DEFAULT_LANG)) lang)"

definition outcome_at :: "env \<Rightarrow> string \<Rightarrow> string \<Rightarrow> outcome" where
  "outcome_at env base lang =
     (case ok_body env (base @ lang @ ''.json'') of
        None \<Rightarrow> default_only (ok_body env (base @ DEFAULT_LANG @ ''.json'')) lang
      | Some dict \<Rightarrow> loaded_with dict (ok_body env (base @ DEFAULT_LANG @ ''.json'')) lang)"

text \<open>
  The state an outcome leaves, console apart: after the start of \<^verbatim>\<open>setLang\<close> (\<open>prepare\<close>),
  the dictionaries are applied to the page (\<open>show_dict\<close>) and, in the versions that have
  \<^verbatim>\<open>__lastDict\<close>, a loaded pair is kept and \<^verbatim>\<open>window.i18n\<close> is installed (\<open>keep_dict\<close>).
\<close>

definition prepare :: "env \<Rightarrow> string \<Rightarrow> state \<Rightarrow> state" where
  "prepare env lang s =
     s\<lparr>localStorage := (if setItem_throws env then localStorage s
                          else AList.update STORAGE_KEY lang (localStorage s)),
        dom := updateLangUi lang (dom s)\<rparr>"

definition show_dict :: "jsval \<Rightarrow> jsval \<Rightarrow> state \<Rightarrow> state" where
  "show_dict d f s = s\<lparr>dom := applyTranslations d f (dom s), applied := applied s @ [(d, f)]\<rparr>"

definition keep_dict :: "env \<Rightarrow> jsval \<Rightarrow> jsval \<Rightarrow> state \<Rightarrow> state" where
  "keep_dict env d f s =
     s\<lparr>lastDict := d, lastFallback := f,
        has_refresh := (has_refresh s \<or> \<not> assign_throws env),
        has_setLang := (has_setLang s \<or> \<not> assign_throws env)\<rparr>"

fun settle :: "bool \<Rightarrow> env \<Rightarrow> outcome \<Rightarrow> state \<Rightarrow> state" where
  "settle keeps env NoDictionary s = s"
| "settle keeps env (FallbackOnly d) s = show_dict d (Obj []) s"
| "settle keeps env (Loaded d f) s =
     (if keeps then keep_dict env d f (show_dict d f s) else show_dict d f s)"

fun is_loaded :: "outcome \<Rightarrow> bool" where
  "is_loaded (Loaded d f) = True"
| "is_loaded other = False"

text \<open>
  \<open>runs L m r F\<close>: from every state the statement \<open>m\<close> ends with the result \<open>r\<close> (a value
  or a throw) in the state \<open>F\<close> gives, with more lines on the console, lines of every level
  in \<open>L\<close> among them.
\<close>

definition runs :: "level set \<Rightarrow> 'a js \<Rightarrow> exn + 'a \<Rightarrow> (state \<Rightarrow> state) \<Rightarrow> bool" where
  "runs L m r F =
     (\<forall>s. \<exists>c. L \<subseteq> fst ` set c \<and> m s = (r, (F s)\<lparr>console := console s @ c\<rparr>))"

definition console_free :: "(state \<Rightarrow> state) \<Rightarrow> bool" where
  "console_free F = (\<forall>s k. F (s\<lparr>console := k\<rparr>) = (F s)\<lparr>console := k\<rparr>)"

definition final :: "bool \<Rightarrow> env \<Rightarrow> string \<Rightarrow> outcome \<Rightarrow> state \<Rightarrow> state" where
  "final keeps env lang out s = settle keeps env out (prepare env lang s)"

text \<open>The calls of \<^verbatim>\<open>applyTranslations\<close> an outcome comes with.\<close>

fun entries :: "outcome \<Rightarrow> (jsval \<times> jsval) list" where
  "entries NoDictionary = []"
| "entries (FallbackOnly d) = [(d, Obj [])]"
| "entries (Loaded d f) = [(d, f)]"

text \<open>What the callback of \<open>updateLangUi\<close> does to a switch control.\<close>

definition press_el :: "string \<Rightarrow> element \<Rightarrow> element" where
  "press_el lang e =
     setAttribute ''aria-pressed''
       (if getAttribute e ''data-set-lang'' = Some lang then ''true'' else ''false'') e"

definition press_ops :: "string \<Rightarrow> nat \<Rightarrow> element \<Rightarrow> dom_op list" where
  "press_ops lang el e =
     [SetAttr el ''aria-pressed''
        (if getAttribute e ''data-set-lang'' = Some lang then ''true'' else ''false'')]"

section \<open>The initial language, as specified\<close>

text \<open>
  The order of precedence of the specification: the persisted preference when there is one
  and it is supported, otherwise the declared language of the page when it is supported,
  otherwise the default.
\<close>

definition resolveInitialLanguage :: "string option \<Rightarrow> string \<Rightarrow> string" where
  "resolveInitialLanguage persisted declared =
     (case persisted of
        Some c \<Rightarrow>
          if c \<in> SUPPORTED then c
          else if declared \<in> SUPPORTED then declared else DEFAULT_LANG
      | None \<Rightarrow> if declared \<in> SUPPORTED then declared else DEFAULT_LANG)"

section \<open>Executions\<close>

text \<open>
  An execution of a page is a sequence of events after the script is loaded: calls of
  \<^verbatim>\<open>setLang\<close> (at start, on a click or a key, or through \<^verbatim>\<open>window.i18n.setLang\<close>), each
  with the environment it meets, and calls of \<^verbatim>\<open>window.i18n.refresh\<close>, which can only be
  made once it exists. The calls are followed one after the other: in the script the
  statements after the last \<^verbatim>\<open>await\<close> of a call (apply, keep, install) run without
  interruption. \<open>step\<close> and \<open>run\<close> take the version of \<^verbatim>\<open>setLang\<close> as an argument.
\<close>

datatype event = Switch env string | Reapply

fun step :: "(env \<Rightarrow> string \<Rightarrow> unit js) \<Rightarrow> event \<Rightarrow> state \<Rightarrow> state" where
  "step sl (Switch env requested) s = snd (sl env requested s)"
| "step sl Reapply s = (if has_refresh s then snd (refresh s) else s)"









section \<open>Two environments and a starting state\<close>

text \<open>
  \<open>offline\<close>: every fetch fails. \<open>only_hu\<close>: the Hungarian dictionary is served under
  \<^verbatim>\<open>./i18n/\<close> and \<^verbatim>\<open>i18n/\<close>, nothing else is. \<open>start\<close>: the page of above, nothing stored.
\<close>

definition offline :: env where
  "offline = \<lparr>fetch = (\<lambda>url. None), setItem_throws = False, getItem_throws = False,
               assign_throws = False, pathname = ''/''\<rparr>"

definition only_hu :: env where
  "only_hu =
     \<lparr>fetch = (\<lambda>url. if url = ''./i18n/hu.json'' \<or> url = ''i18n/hu.json''
                        then Some (Response 200 (Some dict_hu)) else None),
      setItem_throws = False, getItem_throws = False, assign_throws = False, pathname = ''/''\<rparr>"

definition start :: state where
  "start = \<lparr>localStorage = [], dom = page, console = [], lastDict = Null, lastFallback = Null,
             has_refresh = False, has_setLang = False, applied = []\<rparr>"

section \<open>Properties of the key lookup\<close>


lemma js_split_not_Nil: "js_split c s \<noteq> []"
  by (induction s) (auto split: list.splits)









section \<open>Properties of applying a dictionary\<close>

lemma dom_write_SetText:
  "dom_write (SetText el v) doc =
     doc\<lparr>elements := (elements doc)[el := (elements doc ! el)\<lparr>content := Text v\<rparr>],
         writes := writes doc @ [SetText el v]\<rparr>"
  by (simp add: dom_write_def modify_element_def)

lemma dom_write_SetHtml:
  "dom_write (SetHtml el v) doc =
     doc\<lparr>elements := (elements doc)[el := (elements doc ! el)\<lparr>content := Html v\<rparr>],
         writes := writes doc @ [SetHtml el v]\<rparr>"
  by (simp add: dom_write_def modify_element_def)

lemma dom_write_SetAttr:
  "dom_write (SetAttr el a v) doc =
     doc\<lparr>elements := (elements doc)[el := setAttribute a v (elements doc ! el)],
         writes := writes doc @ [SetAttr el a v]\<rparr>"
  by (simp add: dom_write_def modify_element_def)

lemma local_text: "local_cb (text_binding d f) (text_el d f) (text_ops d f)"
  by (auto simp: local_cb_def text_binding_def text_el_def text_ops_def dom_write_SetText
      split: option.splits)

lemma local_html: "local_cb (html_binding d f) (html_el d f) (html_ops d f)"
  by (auto simp: local_cb_def html_binding_def html_el_def html_ops_def dom_write_SetHtml
      split: option.splits)

lemma forEach_Nil [simp]: "forEach [] cb doc = doc"
  by (simp add: forEach_def)

lemma forEach_Cons [simp]: "forEach (x # xs) cb doc = forEach xs cb (cb x doc)"
  by (simp add: forEach_def)

lemma forEach_local:
  assumes "local_cb cb g ops"
  shows "distinct els \<Longrightarrow> \<forall>el \<in> set els. el < length (elements doc) \<Longrightarrow>
     forEach els cb doc =
       doc\<lparr>elements := map (\<lambda>j. if j \<in> set els then g (elements doc ! j) else elements doc ! j)
                          [0..<length (elements doc)],
           writes := writes doc @ concat (map (\<lambda>el. ops el (elements doc ! el)) els)\<rparr>"
proof (induction els arbitrary: doc)
  case Nil
  then show ?case by (simp add: map_nth)
next
  case (Cons i els)
  let ?doc' = "cb i doc"
  have i: "i < length (elements doc)" and ni: "i \<notin> set els" and dis: "distinct els"
    using Cons.prems by simp_all
  have cb: "?doc' = doc\<lparr>elements := (elements doc)[i := g (elements doc ! i)],
                       writes := writes doc @ ops i (elements doc ! i)\<rparr>"
    using assms i by (simp add: local_cb_def)
  have len: "length (elements ?doc') = length (elements doc)"
    by (simp add: cb)
  have rng: "\<forall>el \<in> set els. el < length (elements ?doc')"
    using Cons.prems len by simp
  have same: "\<And>j. j \<in> set els \<Longrightarrow> elements ?doc' ! j = elements doc ! j"
    using ni i by (auto simp: cb nth_list_update)
  have ops_eq: "map (\<lambda>el. ops el (elements ?doc' ! el)) els = map (\<lambda>el. ops el (elements doc ! el)) els"
    using same by simp
  have els_eq: "map (\<lambda>j. if j \<in> set els then g (elements ?doc' ! j) else elements ?doc' ! j)
                   [0..<length (elements ?doc')] =
                map (\<lambda>j. if j \<in> set (i # els) then g (elements doc ! j) else elements doc ! j)
                   [0..<length (elements doc)]"
    unfolding len
  proof (rule map_cong [OF refl])
    fix j assume "j \<in> set [0..<length (elements doc)]"
    then have j: "j < length (elements doc)" by simp
    show "(if j \<in> set els then g (elements ?doc' ! j) else elements ?doc' ! j) =
          (if j \<in> set (i # els) then g (elements doc ! j) else elements doc ! j)"
      using ni i j by (auto simp: cb nth_list_update)
  qed
  show ?case
    unfolding forEach_Cons Cons.IH [OF dis rng] ops_eq els_eq
    by (simp add: cb)
qed

lemma attr_pair_local:
  "el < length (elements doc) \<Longrightarrow>
     attr_pair d f el pair doc =
       doc\<lparr>elements := (elements doc)[el := pair_el d f pair (elements doc ! el)],
           writes := writes doc @ pair_ops d f el pair\<rparr>"
  by (auto simp: attr_pair_def pair_el_def pair_ops_def Let_def dom_write_SetAttr
      split: option.splits)

lemma forEach_attr_pair:
  "el < length (elements doc) \<Longrightarrow>
     forEach pairs (attr_pair d f el) doc =
       doc\<lparr>elements := (elements doc)[el := foldl (\<lambda>e pair. pair_el d f pair e) (elements doc ! el) pairs],
           writes := writes doc @ concat (map (pair_ops d f el) pairs)\<rparr>"
proof (induction pairs arbitrary: doc)
  case Nil
  then show ?case by simp
next
  case (Cons p ps)
  let ?doc' = "attr_pair d f el p doc"
  have step: "?doc' = doc\<lparr>elements := (elements doc)[el := pair_el d f p (elements doc ! el)],
                          writes := writes doc @ pair_ops d f el p\<rparr>"
    using Cons.prems by (rule attr_pair_local)
  have len: "el < length (elements ?doc')"
    using Cons.prems by (simp add: step)
  show ?case
    unfolding forEach_Cons Cons.IH [OF len]
    using Cons.prems by (simp add: step)
qed

lemma local_attr: "local_cb (attr_binding d f) (attr_el d f) (attr_ops d f)"
  by (simp add: local_cb_def attr_binding_def attr_el_def attr_ops_def marker_def
      forEach_attr_pair Let_def)

lemma distinct_querySelectorAll: "distinct (querySelectorAll name doc)"
  by (simp add: querySelectorAll_def)

lemma querySelectorAll_range:
  "\<forall>el \<in> set (querySelectorAll name doc). el < length (elements doc)"
  by (simp add: querySelectorAll_def)

lemma concat_map_filter_Nil:
  "(\<And>x. x \<in> set xs \<Longrightarrow> \<not> P x \<Longrightarrow> h x = []) \<Longrightarrow>
     concat (map h (filter P xs)) = concat (map h xs)"
  by (induction xs) auto

lemma forEach_selected:
  assumes loc: "local_cb cb g ops"
    and g: "\<And>e. getAttribute e name = None \<Longrightarrow> g e = e"
    and ops: "\<And>el e. getAttribute e name = None \<Longrightarrow> ops el e = []"
  shows "forEach (querySelectorAll name doc) cb doc =
           doc\<lparr>elements := map g (elements doc),
               writes := writes doc @
                 concat (map (\<lambda>el. ops el (elements doc ! el)) [0..<length (elements doc)])\<rparr>"
proof -
  have els: "map (\<lambda>j. if j \<in> set (querySelectorAll name doc) then g (elements doc ! j)
                       else elements doc ! j) [0..<length (elements doc)] =
             map g (elements doc)"
    by (rule nth_equalityI) (auto simp: querySelectorAll_def g)
  have ws: "concat (map (\<lambda>el. ops el (elements doc ! el)) (querySelectorAll name doc)) =
            concat (map (\<lambda>el. ops el (elements doc ! el)) [0..<length (elements doc)])"
    unfolding querySelectorAll_def by (rule concat_map_filter_Nil) (simp add: ops)
  show ?thesis
    unfolding forEach_local [OF loc distinct_querySelectorAll querySelectorAll_range] els ws ..
qed

lemma text_el_None: "getAttribute e ''data-i18n'' = None \<Longrightarrow> text_el d f e = e"
  by (simp add: text_el_def)

lemma text_ops_None: "getAttribute e ''data-i18n'' = None \<Longrightarrow> text_ops d f el e = []"
  by (simp add: text_ops_def)

lemma html_el_None: "getAttribute e ''data-i18n-html'' = None \<Longrightarrow> html_el d f e = e"
  by (simp add: html_el_def)

lemma html_ops_None: "getAttribute e ''data-i18n-html'' = None \<Longrightarrow> html_ops d f el e = []"
  by (simp add: html_ops_def)

lemma pairs_of_Nil: "pairs_of [] = []"
  by (simp add: pairs_of_def trim_def)

lemma attr_el_None: "getAttribute e ''data-i18n-attr'' = None \<Longrightarrow> attr_el d f e = e"
  by (simp add: attr_el_def marker_def pairs_of_Nil)

lemma attr_ops_None: "getAttribute e ''data-i18n-attr'' = None \<Longrightarrow> attr_ops d f el e = []"
  by (simp add: attr_ops_def marker_def pairs_of_Nil)

lemma attrs_text_el: "attrs (text_el d f e) = attrs e"
  by (simp add: text_el_def split: option.splits)

lemma attrs_html_el: "attrs (html_el d f e) = attrs e"
  by (simp add: html_el_def split: option.splits)

lemma html_ops_text_el: "html_ops d f el (text_el d f e) = html_ops d f el e"
  by (simp add: html_ops_def getAttribute_def attrs_text_el)

lemma attr_ops_html_text: "attr_ops d f el (html_el d f (text_el d f e)) = attr_ops d f el e"
  by (simp add: attr_ops_def marker_def getAttribute_def attrs_text_el attrs_html_el)

lemma all_ops_cong:
  "length es' = length es \<Longrightarrow> (\<And>el. el < length es \<Longrightarrow> ops el (es' ! el) = ops el (es ! el)) \<Longrightarrow>
     all_ops ops es' = all_ops ops es"
proof -
  assume len: "length es' = length es"
    and eq: "\<And>el. el < length es \<Longrightarrow> ops el (es' ! el) = ops el (es ! el)"
  have "map (\<lambda>el. ops el (es' ! el)) [0..<length es] = map (\<lambda>el. ops el (es ! el)) [0..<length es]"
    by (rule map_cong [OF refl]) (simp add: eq)
  then show ?thesis
    unfolding all_ops_def len by (rule arg_cong)
qed

lemma applyTranslations_passes:
  "applyTranslations d f doc =
     (let doc2 = apply_description d f (apply_title d f doc); es = elements doc2
      in doc2\<lparr>elements := map (\<lambda>e. attr_el d f (html_el d f (text_el d f e))) es,
              writes := writes doc2 @ all_ops (text_ops d f) es @ all_ops (html_ops d f) es @
                        all_ops (attr_ops d f) es\<rparr>)"
proof -
  define doc2 where "doc2 = apply_description d f (apply_title d f doc)"
  define es where "es = elements doc2"
  define doc3 where "doc3 = forEach (querySelectorAll ''data-i18n'' doc2) (text_binding d f) doc2"
  define doc4 where "doc4 = forEach (querySelectorAll ''data-i18n-html'' doc3) (html_binding d f) doc3"
  have d3: "doc3 = doc2\<lparr>elements := map (text_el d f) es, writes := writes doc2 @ all_ops (text_ops d f) es\<rparr>"
    unfolding doc3_def es_def all_ops_def
    by (rule forEach_selected [OF local_text text_el_None text_ops_None])
  have d4: "doc4 = doc3\<lparr>elements := map (html_el d f) (elements doc3),
                        writes := writes doc3 @ all_ops (html_ops d f) (elements doc3)\<rparr>"
    unfolding doc4_def all_ops_def
    by (rule forEach_selected [OF local_html html_el_None html_ops_None])
  have d5: "forEach (querySelectorAll ''data-i18n-attr'' doc4) (attr_binding d f) doc4 =
            doc4\<lparr>elements := map (attr_el d f) (elements doc4),
                 writes := writes doc4 @ all_ops (attr_ops d f) (elements doc4)\<rparr>"
    unfolding all_ops_def
    by (rule forEach_selected [OF local_attr attr_el_None attr_ops_None])
  have h: "all_ops (html_ops d f) (map (text_el d f) es) = all_ops (html_ops d f) es"
    by (rule all_ops_cong) (simp_all add: html_ops_text_el)
  have a: "all_ops (attr_ops d f) (map (\<lambda>e. html_el d f (text_el d f e)) es) = all_ops (attr_ops d f) es"
    by (rule all_ops_cong) (simp_all add: attr_ops_html_text)
  have "applyTranslations d f doc = forEach (querySelectorAll ''data-i18n-attr'' doc4) (attr_binding d f) doc4"
    by (simp add: applyTranslations_def Let_def doc2_def doc3_def doc4_def)
  also have "\<dots> = doc2\<lparr>elements := map (\<lambda>e. attr_el d f (html_el d f (text_el d f e))) es,
              writes := writes doc2 @ all_ops (text_ops d f) es @ all_ops (html_ops d f) es @
                        all_ops (attr_ops d f) es\<rparr>"
    unfolding d5 by (simp add: d4 d3 h a comp_def)
  finally show ?thesis
    by (simp add: Let_def doc2_def es_def)
qed

lemma trim_Nil [simp]: "trim [] = []"
  by (simp add: trim_def)

lemma part_0: "part (a # ps) 0 = trim a"
  by (simp add: part_def)

lemma part_1: "part (a # k # ps) (Suc 0) = trim k"
  by (simp add: part_def)

lemma part_1_single: "part [a] (Suc 0) = []"
  by (simp add: part_def)

lemma nonblank_Some: "nonblank x = Some v \<Longrightarrow> x = Str v \<and> 0 < length (trim v)"
  by (cases x) (auto split: if_splits)

lemma resolve_found: "resolve d f key = Some v \<Longrightarrow> key \<noteq> [] \<and> found d f key v"
  by (auto simp: resolve_def found_def split: if_splits option.splits dest: nonblank_Some)




lemma getAttribute_setAttribute:
  "getAttribute (setAttribute a v e) b = (if b = a then Some v else getAttribute e b)"
  by (simp add: getAttribute_def setAttribute_def update_conv')



lemma elements_apply_title: "elements (apply_title d f doc) = elements doc"
  by (simp add: apply_title_def dom_write_def split: option.splits)

lemma writes_apply_title: "writes (apply_title d f doc) = writes doc @ title_ops d f"
  by (simp add: apply_title_def title_ops_def dom_write_def split: option.splits)

lemma querySelector_meta_cong: "elements doc' = elements doc \<Longrightarrow> querySelector_meta doc' = querySelector_meta doc"
  by (simp add: querySelector_meta_def)

lemma querySelector_meta_apply_title:
  "querySelector_meta (apply_title d f doc) = querySelector_meta doc"
  by (rule querySelector_meta_cong) (rule elements_apply_title)

lemma querySelector_meta_range: "querySelector_meta doc = Some m \<Longrightarrow> m < length (elements doc)"
  by (auto simp: querySelector_meta_def find_Some_iff)

lemma writes_apply_description:
  "writes (apply_description d f doc) = writes doc @ description_ops d f doc"
  by (simp add: apply_description_def description_ops_def dom_write_def split: option.splits)

lemma length_apply_description:
  "length (elements (apply_description d f doc)) = length (elements doc)"
  by (simp add: apply_description_def dom_write_def modify_element_def split: option.splits)

lemma apply_description_cases:
  obtains (same) "apply_description d f doc = doc" and "description_ops d f doc = []"
  | (set) v m where "resolve d f ''meta.description'' = Some v"
      and "querySelector_meta doc = Some m" and "m < length (elements doc)"
      and "apply_description d f doc = dom_write (SetAttr m ''content'' v) doc"
      and "description_ops d f doc = [SetAttr m ''content'' v]"
proof (cases "resolve d f ''meta.description''")
  case None
  then show ?thesis
    by (intro same) (simp_all add: apply_description_def description_ops_def)
next
  case (Some v)
  show ?thesis
  proof (cases "querySelector_meta doc")
    case None
    with Some show ?thesis
      by (intro same) (simp_all add: apply_description_def description_ops_def)
  next
    case (Some m)
    with \<open>resolve d f ''meta.description'' = Some v\<close> show ?thesis
      by (intro set [of v m]) (simp_all add: apply_description_def description_ops_def
          querySelector_meta_range)
  qed
qed


lemma getAttribute_apply_description:
  "el < length (elements doc) \<Longrightarrow>
     getAttribute (elements (apply_description d f doc) ! el) a =
       (if querySelector_meta doc = Some el \<and> a = ''content''
        then (case resolve d f ''meta.description'' of
                None \<Rightarrow> getAttribute (elements doc ! el) a
              | Some v \<Rightarrow> Some v)
        else getAttribute (elements doc ! el) a)"
proof (cases rule: apply_description_cases [of d f doc])
  case same
  then show ?thesis
    by (auto simp: description_ops_def split: option.splits)
next
  case (set v m)
  then show ?thesis
    by (simp add: dom_write_SetAttr nth_list_update getAttribute_setAttribute)
qed

lemma getAttribute_apply_description_title:
  "getAttribute (elements (apply_description d f (apply_title d f doc)) ! el) a =
   getAttribute (elements (apply_description d f doc) ! el) a"
proof -
  have "elements (apply_description d f (apply_title d f doc)) = elements (apply_description d f doc)"
    by (simp add: apply_description_def querySelector_meta_apply_title elements_apply_title
        dom_write_SetAttr split: option.splits)
  then show ?thesis by simp
qed

lemma length_after_head: "length (elements (after_head d f doc)) = length (elements doc)"
  by (simp add: after_head_def length_apply_description elements_apply_title)


lemma getAttribute_after_head:
  "el < length (elements doc) \<Longrightarrow>
     getAttribute (elements (after_head d f doc) ! el) a =
       (if querySelector_meta doc = Some el \<and> a = ''content''
        then (case resolve d f ''meta.description'' of
                None \<Rightarrow> getAttribute (elements doc ! el) a
              | Some v \<Rightarrow> Some v)
        else getAttribute (elements doc ! el) a)"
  by (simp add: after_head_def getAttribute_apply_description_title getAttribute_apply_description)

lemma getAttribute_after_head_other:
  "el < length (elements doc) \<Longrightarrow> a \<noteq> ''content'' \<Longrightarrow>
     getAttribute (elements (after_head d f doc) ! el) a = getAttribute (elements doc ! el) a"
  by (simp add: getAttribute_after_head)

lemma marker_after_head:
  "el < length (elements doc) \<Longrightarrow> marker (elements (after_head d f doc) ! el) = marker (elements doc ! el)"
  by (simp add: marker_def getAttribute_after_head_other)

lemma text_keys_after_head:
  "el < length (elements doc) \<Longrightarrow> text_keys (elements (after_head d f doc) ! el) = text_keys (elements doc ! el)"
  by (simp add: text_keys_def getAttribute_after_head_other)

lemma html_keys_after_head:
  "el < length (elements doc) \<Longrightarrow> html_keys (elements (after_head d f doc) ! el) = html_keys (elements doc ! el)"
  by (simp add: html_keys_def getAttribute_after_head_other)

lemma writes_after_head: "writes (after_head d f doc) = writes doc @ title_ops d f @ description_ops d f doc"
  by (simp add: after_head_def writes_apply_description writes_apply_title description_ops_def
      querySelector_meta_apply_title split: option.splits)


lemma writes_applyTranslations:
  "writes (applyTranslations d f doc) =
     writes doc @ title_ops d f @ description_ops d f doc @
     all_ops (text_ops d f) (elements (after_head d f doc)) @
     all_ops (html_ops d f) (elements (after_head d f doc)) @
     all_ops (attr_ops d f) (elements (after_head d f doc))"
  by (simp add: applyTranslations_passes Let_def after_head_def [symmetric] writes_after_head)







lemma html_keys_text_el: "html_keys (text_el d f e) = html_keys e"
  by (simp add: html_keys_def getAttribute_def attrs_text_el)


lemma pair_ops_eq:
  "pair_ops d f el pair =
     map (\<lambda>(a, v). SetAttr el a v)
       (concat (map (\<lambda>(a, k). case resolve d f k of None \<Rightarrow> [] | Some v \<Rightarrow> [(a, v)])
          (case js_split CHR '':'' pair of
             a # k # rest \<Rightarrow> if trim a \<noteq> [] \<and> trim k \<noteq> [] then [(trim a, trim k)] else []
           | _ \<Rightarrow> [])))"
proof (cases "js_split CHR '':'' pair")
  case Nil
  then show ?thesis by (simp add: js_split_not_Nil)
next
  case (Cons a ps)
  then show ?thesis
    by (cases ps) (auto simp: pair_ops_def Let_def part_0 part_1 part_1_single split: option.splits)
qed

lemma concat_pair_ops:
  "concat (map (pair_ops d f el) pairs) =
     map (\<lambda>(a, v). SetAttr el a v)
       (concat (map (\<lambda>(a, k). case resolve d f k of None \<Rightarrow> [] | Some v \<Rightarrow> [(a, v)])
          (concat (map (\<lambda>piece. case js_split CHR '':'' piece of
                            a # k # rest \<Rightarrow> if trim a \<noteq> [] \<and> trim k \<noteq> [] then [(trim a, trim k)] else []
                          | _ \<Rightarrow> []) pairs))))"
  by (induction pairs) (simp_all add: pair_ops_eq)

lemma attr_ops_eq:
  "attr_ops d f el e = map (\<lambda>(a, v). SetAttr el a v) (resolved_pairs d f (marker e))"
  by (simp add: attr_ops_def resolved_pairs_def binding_pairs_def pairs_of_def concat_pair_ops)

lemma in_resolved_pairs:
  "(a, v) \<in> set (resolved_pairs d f spec) \<Longrightarrow>
     \<exists>k. (a, k) \<in> set (binding_pairs spec) \<and> resolve d f k = Some v"
  by (auto simp: resolved_pairs_def split: option.splits)

lemma in_all_ops:
  "w \<in> set (all_ops ops es) \<Longrightarrow> \<exists>el < length es. w \<in> set (ops el (es ! el))"
  by (auto simp: all_ops_def)




lemma in_title_ops:
  "w \<in> set (title_ops d f) \<Longrightarrow> \<exists>v. w = SetTitle v \<and> resolve d f ''meta.title'' = Some v"
  by (auto simp: title_ops_def split: option.splits)

lemma in_description_ops:
  "w \<in> set (description_ops d f doc) \<Longrightarrow>
     \<exists>v m. w = SetAttr m ''content'' v \<and> querySelector_meta doc = Some m \<and>
            resolve d f ''meta.description'' = Some v"
  by (auto simp: description_ops_def split: option.splits)

lemma in_text_ops:
  "w \<in> set (text_ops d f el e) \<Longrightarrow>
     \<exists>k v. w = SetText el v \<and> k \<in> set (text_keys e) \<and> resolve d f k = Some v"
  by (auto simp: text_ops_def text_keys_def split: option.splits)

lemma in_html_ops:
  "w \<in> set (html_ops d f el e) \<Longrightarrow>
     \<exists>k v. w = SetHtml el v \<and> k \<in> set (html_keys e) \<and> resolve d f k = Some v"
  by (auto simp: html_ops_def html_keys_def split: option.splits)

lemma in_attr_ops:
  "w \<in> set (attr_ops d f el e) \<Longrightarrow>
     \<exists>a k v. w = SetAttr el a v \<and> (a, k) \<in> set (binding_pairs (marker e)) \<and> resolve d f k = Some v"
  by (auto simp: attr_ops_eq dest: in_resolved_pairs)

lemma from_dictionaryI:
  "key \<in> set (binding_keys doc w) \<Longrightarrow> resolve d f key = Some (op_value w) \<Longrightarrow> from_dictionary d f doc w"
  unfolding from_dictionary_def by (blast dest: resolve_found)






section \<open>What applying a dictionary leaves and what it writes\<close>





text \<open>
  C9. Every assignment a call of \<open>applyTranslations\<close> makes to the page (title, content
  attribute of the description, text, inner HTML, bound attribute) writes a string that is
  not blank after trimming and that is the value at the path of a key bound to that target,
  in the primary dictionary or, when the primary has no such string there, in the
  fallback. The path is the one \<open>getByPath\<close> follows. The text of \<open>applyTranslations\<close> is
  the same in all three versions of the script.
\<close>

theorem written_values:
  "\<forall>w \<in> set (drop (length (writes doc)) (writes (applyTranslations d f doc))).
      \<exists>key \<in> set (binding_keys doc w). key \<noteq> [] \<and> found d f key (op_value w)"
proof
  fix w
  let ?es = "elements (after_head d f doc)"
  assume "w \<in> set (drop (length (writes doc)) (writes (applyTranslations d f doc)))"
  then consider
      (from_title) "w \<in> set (title_ops d f)"
    | (from_description) "w \<in> set (description_ops d f doc)"
    | (from_text) "w \<in> set (all_ops (text_ops d f) ?es)"
    | (from_html) "w \<in> set (all_ops (html_ops d f) ?es)"
    | (from_attr) "w \<in> set (all_ops (attr_ops d f) ?es)"
    by (auto simp: writes_applyTranslations)
  then have "from_dictionary d f doc w"
  proof cases
    case from_title
    then show ?thesis
      by (auto dest!: in_title_ops intro!: from_dictionaryI)
  next
    case from_description
    then show ?thesis
      by (auto dest!: in_description_ops intro!: from_dictionaryI simp: attr_keys_def)
  next
    case from_text
    then obtain el k v where "el < length (elements doc)" "w = SetText el v"
      "k \<in> set (text_keys (?es ! el))" "resolve d f k = Some v"
      by (auto dest!: in_all_ops in_text_ops simp: length_after_head)
    then show ?thesis
      by (auto intro!: from_dictionaryI simp: text_keys_after_head)
  next
    case from_html
    then obtain el k v where "el < length (elements doc)" "w = SetHtml el v"
      "k \<in> set (html_keys (?es ! el))" "resolve d f k = Some v"
      by (auto dest!: in_all_ops in_html_ops simp: length_after_head)
    then show ?thesis
      by (auto intro!: from_dictionaryI simp: html_keys_after_head)
  next
    case from_attr
    then obtain el a k v where "el < length (elements doc)" "w = SetAttr el a v"
      "(a, k) \<in> set (binding_pairs (marker (?es ! el)))" "resolve d f k = Some v"
      by (auto dest!: in_all_ops in_attr_ops simp: length_after_head)
    then show ?thesis
      by (intro from_dictionaryI [of k]) (auto simp: marker_after_head attr_keys_def intro!: image_eqI [of _ snd "(a, k)"])
  qed
  then show "\<exists>key \<in> set (binding_keys doc w). key \<noteq> [] \<and> found d f key (op_value w)"
    by (simp add: from_dictionary_def)
qed

theorem written_values_witness:
  "SetAttr 3 ''title'' ''Segitseg'' \<in>
     set (drop (length (writes page)) (writes (applyTranslations dict_it dict_hu page))) \<and>
   (\<exists>key \<in> set (binding_keys page (SetAttr 3 ''title'' ''Segitseg'')).
      key \<noteq> [] \<and> found dict_it dict_hu key ''Segitseg'')"
proof -
  have m: "SetAttr 3 ''title'' ''Segitseg'' \<in>
             set (drop (length (writes page)) (writes (applyTranslations dict_it dict_hu page)))"
    by code_simp
  show ?thesis
    using written_values [of page dict_it dict_hu, THEN bspec, OF m] m
    by simp
qed

section \<open>Properties of the loader\<close>

lemma console_free_console: "console_free F \<Longrightarrow> console (F s) = console s"
proof -
  assume "console_free F"
  then have "F (s\<lparr>console := console s\<rparr>) = (F s)\<lparr>console := console s\<rparr>"
    unfolding console_free_def by blast
  then have "F s = (F s)\<lparr>console := console s\<rparr>" by simp
  then have "console (F s) = console ((F s)\<lparr>console := console s\<rparr>)" by simp
  then show ?thesis by simp
qed

lemma console_free_id: "console_free (\<lambda>s. s)"
  by (simp add: console_free_def)

lemma console_free_comp: "console_free F \<Longrightarrow> console_free G \<Longrightarrow> console_free (\<lambda>s. G (F s))"
  by (simp add: console_free_def)

lemma runs_return: "runs {} (js_return x) (Inr x) (\<lambda>s. s)"
  unfolding runs_def js_return_def
  by (intro allI exI [of _ "[]"]) simp

lemma runs_throw: "runs {} (js_throw e) (Inl e) (\<lambda>s. s)"
  unfolding runs_def js_throw_def
  by (intro allI exI [of _ "[]"]) simp

lemma runs_console: "runs {lv} (console_out lv msg arg err) (Inr ()) (\<lambda>s. s)"
  unfolding runs_def console_out_def js_modify_def
  by (intro allI exI [of _ "[(lv, msg, arg, err)]"]) simp

lemma runs_modify: "console_free g \<Longrightarrow> runs {} (js_modify g) (Inr ()) g"
  unfolding runs_def js_modify_def
  by (intro allI exI [of _ "[]"]) (simp add: console_free_console)

lemma runs_weaken: "runs L m r F \<Longrightarrow> L' \<subseteq> L \<Longrightarrow> runs L' m r F"
  unfolding runs_def by (meson subset_trans)

lemma runs_bind:
  assumes m: "runs L1 m (Inr x) F" and k: "runs L2 (k x) r G" and G: "console_free G"
  shows "runs (L1 \<union> L2) (js_bind m k) r (\<lambda>s. G (F s))"
  unfolding runs_def
proof
  fix s
  from m obtain c1 where c1: "L1 \<subseteq> fst ` set c1" and ms: "m s = (Inr x, (F s)\<lparr>console := console s @ c1\<rparr>)"
    unfolding runs_def by blast
  let ?s1 = "(F s)\<lparr>console := console s @ c1\<rparr>"
  from k obtain c2 where c2: "L2 \<subseteq> fst ` set c2" and ks: "k x ?s1 = (r, (G ?s1)\<lparr>console := console ?s1 @ c2\<rparr>)"
    unfolding runs_def by blast
  have "G ?s1 = (G (F s))\<lparr>console := console s @ c1\<rparr>"
    using G by (simp add: console_free_def)
  then have "js_bind m k s = (r, (G (F s))\<lparr>console := console s @ (c1 @ c2)\<rparr>)"
    by (simp add: js_bind_def ms ks)
  moreover have "L1 \<union> L2 \<subseteq> fst ` set (c1 @ c2)"
    using c1 c2 by auto
  ultimately show "\<exists>c. L1 \<union> L2 \<subseteq> fst ` set c \<and> js_bind m k s = (r, (G (F s))\<lparr>console := console s @ c\<rparr>)"
    by blast
qed

lemma runs_seq:
  "runs L1 m (Inr ()) F \<Longrightarrow> runs L2 n r G \<Longrightarrow> console_free G \<Longrightarrow>
     runs (L1 \<union> L2) (js_seq m n) r (\<lambda>s. G (F s))"
  unfolding js_seq_def by (rule runs_bind)

lemma runs_bind_throw: "runs L m (Inl e) F \<Longrightarrow> runs L (js_bind m k) (Inl e) F"
  unfolding runs_def js_bind_def
proof
  fix s
  assume "\<forall>s. \<exists>c. L \<subseteq> fst ` set c \<and> m s = (Inl e, (F s)\<lparr>console := console s @ c\<rparr>)"
  then obtain c where "L \<subseteq> fst ` set c" "m s = (Inl e, (F s)\<lparr>console := console s @ c\<rparr>)"
    by blast
  then show "\<exists>c. L \<subseteq> fst ` set c \<and>
      (case m s of (Inl e, s') \<Rightarrow> (Inl e, s') | (Inr x, s') \<Rightarrow> k x s') =
      (Inl e, (F s)\<lparr>console := console s @ c\<rparr>)"
    by (intro exI [of _ c]) simp
qed

lemma runs_try_ok: "runs L m (Inr x) F \<Longrightarrow> runs L (js_try m h) (Inr x) F"
  unfolding runs_def js_try_def
proof
  fix s
  assume "\<forall>s. \<exists>c. L \<subseteq> fst ` set c \<and> m s = (Inr x, (F s)\<lparr>console := console s @ c\<rparr>)"
  then obtain c where "L \<subseteq> fst ` set c" "m s = (Inr x, (F s)\<lparr>console := console s @ c\<rparr>)"
    by blast
  then show "\<exists>c. L \<subseteq> fst ` set c \<and>
      (case m s of (Inl e, s') \<Rightarrow> h e s' | (Inr x, s') \<Rightarrow> (Inr x, s')) =
      (Inr x, (F s)\<lparr>console := console s @ c\<rparr>)"
    by (intro exI [of _ c]) simp
qed

lemma runs_try_catch:
  assumes m: "runs L1 m (Inl e) F" and h: "runs L2 (h e) r G" and G: "console_free G"
  shows "runs (L1 \<union> L2) (js_try m h) r (\<lambda>s. G (F s))"
  unfolding runs_def
proof
  fix s
  from m obtain c1 where c1: "L1 \<subseteq> fst ` set c1" and ms: "m s = (Inl e, (F s)\<lparr>console := console s @ c1\<rparr>)"
    unfolding runs_def by blast
  let ?s1 = "(F s)\<lparr>console := console s @ c1\<rparr>"
  from h obtain c2 where c2: "L2 \<subseteq> fst ` set c2" and hs: "h e ?s1 = (r, (G ?s1)\<lparr>console := console ?s1 @ c2\<rparr>)"
    unfolding runs_def by blast
  have "G ?s1 = (G (F s))\<lparr>console := console s @ c1\<rparr>"
    using G by (simp add: console_free_def)
  then have "js_try m h s = (r, (G (F s))\<lparr>console := console s @ (c1 @ c2)\<rparr>)"
    by (simp add: js_try_def ms hs)
  moreover have "L1 \<union> L2 \<subseteq> fst ` set (c1 @ c2)"
    using c1 c2 by auto
  ultimately show "\<exists>c. L1 \<union> L2 \<subseteq> fst ` set c \<and> js_try m h s = (r, (G (F s))\<lparr>console := console s @ c\<rparr>)"
    by blast
qed

lemma runs_fetchJson_ok: "ok_body env url = Some v \<Longrightarrow> runs {} (fetchJson env url) (Inr v) (\<lambda>s. s)"
  using runs_return [of v]
  by (auto simp: ok_body_def fetchJson_def split: option.splits response.splits if_splits)

lemma runs_fetchJson_fail: "ok_body env url = None \<Longrightarrow> \<exists>e. runs {} (fetchJson env url) (Inl e) (\<lambda>s. s)"
  using runs_throw
  by (auto simp: ok_body_def fetchJson_def split: option.splits response.splits if_splits)

lemma runs_bindI:
  assumes "runs L1 m (Inr x) F" and "runs L2 (k x) r G" and "console_free G"
    and "L \<subseteq> L1 \<union> L2" and "\<And>s. H s = G (F s)"
  shows "runs L (js_bind m k) r H"
proof -
  have "H = (\<lambda>s. G (F s))"
    using assms(5) by (simp add: fun_eq_iff)
  then show ?thesis
    using runs_weaken [OF runs_bind [of L1 m x F L2 k r G, OF assms(1-3)] assms(4)] by simp
qed

lemma runs_seqI:
  assumes "runs L1 m (Inr ()) F" and "runs L2 n r G" and "console_free G"
    and "L \<subseteq> L1 \<union> L2" and "\<And>s. H s = G (F s)"
  shows "runs L (js_seq m n) r H"
  unfolding js_seq_def using assms by (rule runs_bindI [of L1 m "()" F L2 "\<lambda>u. n" r G L H])

lemma runs_try_catchI:
  assumes "runs L1 m (Inl e) F" and "runs L2 (h e) r G" and "console_free G"
    and "L \<subseteq> L1 \<union> L2" and "\<And>s. H s = G (F s)"
  shows "runs L (js_try m h) r H"
proof -
  have "H = (\<lambda>s. G (F s))"
    using assms(5) by (simp add: fun_eq_iff)
  then show ?thesis
    using runs_weaken [OF runs_try_catch [of L1 m e F L2 h r G, OF assms(1-3)] assms(4)] by simp
qed

lemma console_free_show_dict: "console_free (show_dict d f)"
  by (simp add: console_free_def show_dict_def)

lemma console_free_keep_dict: "console_free (keep_dict env d f)"
  by (simp add: console_free_def keep_dict_def)

lemma console_free_prepare: "console_free (prepare env lang)"
  by (simp add: console_free_def prepare_def)

lemma console_free_settle: "console_free (settle keeps env out)"
  by (cases out) (simp_all add: console_free_def show_dict_def keep_dict_def)

lemma runs_log_return: "runs {} (js_seq (console_out lv msg arg err) (js_return x)) (Inr x) (\<lambda>s. s)"
  by (rule runs_seqI, rule runs_console, rule runs_return, rule console_free_id) simp_all

lemma runs_attempt_ok:
  assumes "ok_body env url = Some v"
  shows "runs {} (js_try (js_bind (fetchJson env url) (\<lambda>d. js_seq (console_out lv msg arg err) (js_return (g d))))
                    h) (Inr (g v)) (\<lambda>s. s)"
  by (rule runs_try_ok, rule runs_bindI, rule runs_fetchJson_ok [OF assms], rule runs_log_return,
      rule console_free_id) simp_all

lemma runs_attempt_fail:
  assumes "ok_body env url = None"
  shows "\<exists>e. runs {} (js_try (js_bind (fetchJson env url) k)
                    (\<lambda>e. js_seq (console_out lv msg arg (Some e)) (js_return (g e)))) (Inr (g e)) (\<lambda>s. s)"
proof -
  from runs_fetchJson_fail [OF assms] obtain e where e: "runs {} (fetchJson env url) (Inl e) (\<lambda>s. s)"
    by blast
  have "runs {} (js_try (js_bind (fetchJson env url) k)
                    (\<lambda>e. js_seq (console_out lv msg arg (Some e)) (js_return (g e)))) (Inr (g e)) (\<lambda>s. s)"
    by (rule runs_try_catchI, rule runs_bind_throw [OF e], rule runs_log_return, rule console_free_id)
      simp_all
  then show ?thesis ..
qed

lemma runs_fetch_dict:
  "\<exists>fe'. runs {} (fetch_dict env bs lang fe)
            (Inr (case first_ok env (map (\<lambda>b. b @ lang @ ''.json'') bs) of
                    None \<Rightarrow> Null | Some d \<Rightarrow> d, fe')) (\<lambda>s. s)"
proof (induction bs arbitrary: fe)
  case Nil
  show ?case
    by (intro exI [of _ fe])
      (simp only: list.map first_ok.simps option.case fetch_dict.simps, rule runs_return)
next
  case (Cons b bs)
  let ?url = "b @ lang @ ''.json''"
  show ?case
  proof (cases "ok_body env ?url")
    case (Some v)
    have "runs {} (fetch_dict env (b # bs) lang fe) (Inr (v, fe)) (\<lambda>s. s)"
      unfolding fetch_dict.simps
      by (rule runs_bindI, rule runs_attempt_ok [OF Some], simp only: prod.case option.case if_True if_False, rule runs_return,
          rule console_free_id) simp_all
    then show ?thesis
      using Some by (intro exI [of _ fe]) (simp only: list.map first_ok.simps option.case)
  next
    case None
    from runs_attempt_fail [OF None, where g = "\<lambda>e. (None, if fe = None then Some e else fe)"]
    obtain e where e: "runs {}
        (js_try (js_bind (fetchJson env ?url)
              (\<lambda>dict. js_seq (console_out DEBUG ''[i18n] fetched'' ?url None) (js_return (Some dict, fe))))
           (\<lambda>e. js_seq (console_out WARN ''[i18n] fetch failed'' ?url (Some e))
                  (js_return (None, if fe = None then Some e else fe))))
        (Inr (None, if fe = None then Some e else fe)) (\<lambda>s. s)"
      by blast
    from Cons.IH [of "if fe = None then Some e else fe"]
    obtain fe' where rest: "runs {} (fetch_dict env bs lang (if fe = None then Some e else fe))
            (Inr (case first_ok env (map (\<lambda>b. b @ lang @ ''.json'') bs) of
                    None \<Rightarrow> Null | Some d \<Rightarrow> d, fe')) (\<lambda>s. s)"
      by blast
    have "runs {} (fetch_dict env (b # bs) lang fe)
            (Inr (case first_ok env (map (\<lambda>b. b @ lang @ ''.json'') bs) of
                    None \<Rightarrow> Null | Some d \<Rightarrow> d, fe')) (\<lambda>s. s)"
      unfolding fetch_dict.simps
      by (rule runs_bindI, rule e, simp only: prod.case option.case if_True if_False, rule rest, rule console_free_id) simp_all
    then show ?thesis
      using None by (intro exI [of _ fe']) (simp only: list.map first_ok.simps option.case)
  qed
qed

lemma runs_fetch_fallback:
  "runs {} (fetch_fallback env bs)
     (Inr (case first_ok env (map (\<lambda>b. b @ DEFAULT_LANG @ ''.json'') bs) of
             None \<Rightarrow> Null | Some d \<Rightarrow> d)) (\<lambda>s. s)"
proof (induction bs)
  case Nil
  show ?case
    by (simp only: list.map first_ok.simps option.case fetch_fallback.simps, rule runs_return)
next
  case (Cons b bs)
  let ?url = "b @ DEFAULT_LANG @ ''.json''"
  show ?case
  proof (cases "ok_body env ?url")
    case (Some v)
    have "runs {} (fetch_fallback env (b # bs)) (Inr v) (\<lambda>s. s)"
      unfolding fetch_fallback.simps
      by (rule runs_bindI, rule runs_attempt_ok [OF Some], simp only: prod.case option.case if_True if_False, rule runs_return,
          rule console_free_id) simp_all
    then show ?thesis
      using Some by (simp only: list.map first_ok.simps option.case)
  next
    case None
    from runs_attempt_fail [OF None, where g = "\<lambda>e. None"]
    obtain e where e: "runs {}
        (js_try (js_bind (fetchJson env ?url)
              (\<lambda>fallbackDict. js_seq (console_out DEBUG ''[i18n] fetched fallback'' ?url None)
                  (js_return (Some fallbackDict))))
           (\<lambda>e. js_seq (console_out WARN ''[i18n] fetch failed fallback'' ?url (Some e))
                  (js_return None)))
        (Inr None) (\<lambda>s. s)"
      by blast
    have "runs {} (fetch_fallback env (b # bs))
            (Inr (case first_ok env (map (\<lambda>b. b @ DEFAULT_LANG @ ''.json'') bs) of
                    None \<Rightarrow> Null | Some d \<Rightarrow> d)) (\<lambda>s. s)"
      unfolding fetch_fallback.simps
      by (rule runs_bindI, rule e, simp only: prod.case option.case if_True if_False, rule Cons.IH, rule console_free_id) simp_all
    then show ?thesis
      using None by (simp only: list.map first_ok.simps option.case)
  qed
qed

lemma runs_apply: "runs {} (call_applyTranslations d f) (Inr ()) (show_dict d f)"
proof -
  have "(\<lambda>s. s\<lparr>dom := applyTranslations d f (dom s), applied := applied s @ [(d, f)]\<rparr>) = show_dict d f"
    by (simp add: fun_eq_iff show_dict_def)
  then show ?thesis
    by (simp add: call_applyTranslations_def runs_modify console_free_show_dict)
qed

lemma runs_apply_default:
  "runs {} (apply_default env bs)
     (Inr (case first_ok env (map (\<lambda>b. b @ DEFAULT_LANG @ ''.json'') bs) of
                    None \<Rightarrow> False | Some d \<Rightarrow> True))
     (case first_ok env (map (\<lambda>b. b @ DEFAULT_LANG @ ''.json'') bs) of
        None \<Rightarrow> (\<lambda>s. s) | Some d \<Rightarrow> show_dict (or_empty d) (Obj []))"
proof (induction bs)
  case Nil
  show ?case
    by (simp only: list.map first_ok.simps option.case apply_default.simps, rule runs_return)
next
  case (Cons b bs)
  let ?url = "b @ DEFAULT_LANG @ ''.json''"
  show ?case
  proof (cases "ok_body env ?url")
    case (Some v)
    have 1: "runs {} (js_seq (call_applyTranslations (or_empty v) (Obj []))
                 (js_seq (console_out DEBUG ''[i18n] applied default translations from'' ?url None)
                     (js_return True))) (Inr True) (show_dict (or_empty v) (Obj []))"
      by (rule runs_seqI, rule runs_apply, rule runs_log_return, rule console_free_id) simp_all
    have 2: "runs {} (js_bind (fetchJson env ?url) (\<lambda>baseDict. js_seq (call_applyTranslations (or_empty baseDict) (Obj []))
                 (js_seq (console_out DEBUG ''[i18n] applied default translations from'' ?url None)
                     (js_return True)))) (Inr True) (show_dict (or_empty v) (Obj []))"
      by (rule runs_bindI, rule runs_fetchJson_ok [OF Some], rule 1, rule console_free_show_dict)
        simp_all
    have "runs {} (apply_default env (b # bs)) (Inr True) (show_dict (or_empty v) (Obj []))"
      unfolding apply_default.simps
      by (rule runs_bindI, rule runs_try_ok, rule 2, simp only: if_True, rule runs_return,
          rule console_free_id) simp_all
    then show ?thesis
      using Some by (simp only: list.map first_ok.simps option.case)
  next
    case None
    from runs_attempt_fail [OF None, where g = "\<lambda>e. False"]
    obtain e where e: "runs {}
        (js_try (js_bind (fetchJson env ?url)
              (\<lambda>baseDict.
                js_seq (call_applyTranslations (or_empty baseDict) (Obj []))
               (js_seq (console_out DEBUG ''[i18n] applied default translations from'' ?url None)
                       (js_return True))))
           (\<lambda>e. js_seq (console_out WARN ''[i18n] fallback fetch failed'' ?url (Some e))
                  (js_return False)))
        (Inr False) (\<lambda>s. s)"
      by blast
    have cf: "console_free (case first_ok env (map (\<lambda>b. b @ DEFAULT_LANG @ ''.json'') bs) of
               None \<Rightarrow> (\<lambda>s. s) | Some d \<Rightarrow> show_dict (or_empty d) (Obj []))"
      by (simp add: console_free_id console_free_show_dict split: option.splits)
    have "runs {} (apply_default env (b # bs))
            (Inr (case first_ok env (map (\<lambda>b. b @ DEFAULT_LANG @ ''.json'') bs) of
                    None \<Rightarrow> False | Some d \<Rightarrow> True))
            (case first_ok env (map (\<lambda>b. b @ DEFAULT_LANG @ ''.json'') bs) of
               None \<Rightarrow> (\<lambda>s. s) | Some d \<Rightarrow> show_dict (or_empty d) (Obj []))"
      unfolding apply_default.simps
      by (rule runs_bindI, rule e, simp only: prod.case option.case if_True if_False, rule Cons.IH, rule cf) simp_all
    then show ?thesis
      using None by (simp only: list.map first_ok.simps option.case)
  qed
qed

lemma runs_persist: "runs {} (persist_and_mark env lang) (Inr ()) (prepare env lang)"
proof (cases "setItem_throws env")
  case True
  have 1: "runs {} (js_try (setItem env STORAGE_KEY lang) (\<lambda>e. js_return ())) (Inr ()) (\<lambda>s. s)"
    unfolding setItem_def using True
    by (simp only: if_True) (rule runs_try_catchI, rule runs_throw, rule runs_return, rule console_free_id, simp_all)
  show ?thesis
    unfolding persist_and_mark_def
    by (rule runs_seqI, rule 1, rule runs_modify) (simp_all add: console_free_def prepare_def True)
next
  case False
  have 1: "runs {} (js_try (setItem env STORAGE_KEY lang) (\<lambda>e. js_return ())) (Inr ())
          (\<lambda>s. s\<lparr>localStorage := AList.update STORAGE_KEY lang (localStorage s)\<rparr>)"
    unfolding setItem_def using False
    by (simp only: if_False) (rule runs_try_ok, rule runs_modify, simp add: console_free_def)
  show ?thesis
    unfolding persist_and_mark_def
    by (rule runs_seqI, rule 1, rule runs_modify) (simp_all add: console_free_def prepare_def False)
qed

lemma runs_install:
  "runs {} (js_try (install_api env) (\<lambda>e. js_return ())) (Inr ())
     (\<lambda>s. s\<lparr>has_refresh := (has_refresh s \<or> \<not> assign_throws env),
              has_setLang := (has_setLang s \<or> \<not> assign_throws env)\<rparr>)"
proof (cases "assign_throws env")
  case True
  show ?thesis
    unfolding install_api_def using True
    by (simp only: if_True) (rule runs_try_catchI, rule runs_throw, rule runs_return, rule console_free_id, simp_all)
next
  case False
  have "runs {} (js_try (install_api env) (\<lambda>e. js_return ())) (Inr ())
          (\<lambda>s. s\<lparr>has_refresh := True, has_setLang := True\<rparr>)"
    unfolding install_api_def using False
    by (simp only: if_False) (rule runs_try_ok, rule runs_modify, simp add: console_free_def)
  then show ?thesis
    using False by simp
qed

lemma runs_expose:
  "runs {} (apply_and_expose env lang dict fallbackDict) (Inr ())
     (\<lambda>s. keep_dict env (or_empty dict) (or_empty fallbackDict)
            (show_dict (or_empty dict) (or_empty fallbackDict) s))"
proof -
  have 1: "runs {} (js_seq (js_try (install_api env) (\<lambda>e. js_return ()))
                      (console_out DEBUG ''[i18n] translations applied for'' lang None)) (Inr ())
             (\<lambda>s. s\<lparr>has_refresh := (has_refresh s \<or> \<not> assign_throws env),
                      has_setLang := (has_setLang s \<or> \<not> assign_throws env)\<rparr>)"
    by (rule runs_seqI, rule runs_install, rule runs_console, rule console_free_id) simp_all
  have 2: "runs {} (js_seq (js_modify (\<lambda>s. s\<lparr>lastDict := or_empty dict, lastFallback := or_empty fallbackDict\<rparr>))
                     (js_seq (js_try (install_api env) (\<lambda>e. js_return ()))
                        (console_out DEBUG ''[i18n] translations applied for'' lang None))) (Inr ())
             (keep_dict env (or_empty dict) (or_empty fallbackDict))"
    by (rule runs_seqI, rule runs_modify, simp add: console_free_def, rule 1)
      (simp_all add: console_free_def keep_dict_def)
  show ?thesis
    unfolding apply_and_expose_def
    by (rule runs_seqI, rule runs_apply, rule 2, rule console_free_keep_dict) simp_all
qed

lemma runs_fetch_fallback_at:
  "runs {} (fetch_fallback_at env base)
     (Inr (case ok_body env (base @ DEFAULT_LANG @ ''.json'') of None \<Rightarrow> Null | Some d \<Rightarrow> d))
     (\<lambda>s. s)"
proof (cases "ok_body env (base @ DEFAULT_LANG @ ''.json'')")
  case None
  from runs_attempt_fail [OF None, where g = "\<lambda>e. Null"]
  show ?thesis
    unfolding fetch_fallback_at_def using None by (simp only: option.case) blast
next
  case (Some v)
  from runs_attempt_ok [OF Some, where g = "\<lambda>d. d"]
  show ?thesis
    unfolding fetch_fallback_at_def using Some by (simp only: option.case)
qed

lemma or_empty_Null: "or_empty Null = Obj []"
  by (simp add: or_empty_def)

lemma runs_apply_default_at:
  "runs {ERROR} (apply_default_at env base lang err) (Inr ())
     (settle keeps env (default_only (ok_body env (base @ DEFAULT_LANG @ ''.json'')) lang))"
proof (cases "lang = DEFAULT_LANG")
  case True
  show ?thesis
    unfolding apply_default_at_def using True
    by (simp only: not_True_eq_False if_False refl)
      (rule runs_seqI, rule runs_console, rule runs_return, rule console_free_id,
        simp_all add: default_only_def)
next
  case False
  let ?url = "base @ DEFAULT_LANG @ ''.json''"
  have "runs {} (js_try (js_bind (fetchJson env ?url)
                   (\<lambda>baseDict. call_applyTranslations (or_empty baseDict) (Obj [])))
                 (\<lambda>e. console_out WARN ''[i18n] could not load default translations'' [] (Some e)))
          (Inr ()) (settle keeps env (default_only (ok_body env ?url) lang))"
  proof (cases "ok_body env ?url")
    case None
    from runs_fetchJson_fail [OF None] obtain e where e: "runs {} (fetchJson env ?url) (Inl e) (\<lambda>s. s)"
      by blast
    show ?thesis
      by (rule runs_try_catchI, rule runs_bind_throw [OF e], rule runs_console, rule console_free_id)
        (simp_all add: default_only_def None False)
  next
    case (Some v)
    show ?thesis
      by (rule runs_try_ok, rule runs_bindI, rule runs_fetchJson_ok [OF Some], rule runs_apply,
          rule console_free_show_dict)
        (simp_all add: default_only_def Some False)
  qed
  then show ?thesis
    unfolding apply_default_at_def using False
    by (simp only: if_True not_False_eq_True)
      (rule runs_seqI, rule runs_console, assumption, rule console_free_settle, simp_all)
qed

lemma console_free_final: "console_free (final keeps env lang out)"
  using console_free_settle [of keeps env out] console_free_prepare [of env lang]
  by (simp add: console_free_def final_def)

lemma runs_start:
  assumes "runs L body (Inr ()) (settle keeps env out)"
  shows "runs L (js_seq (console_out LOG ''[i18n] setLang()'' requested None)
                   (js_seq (persist_and_mark env lang) body))
           (Inr ()) (final keeps env lang out)"
proof -
  have "runs L (js_seq (persist_and_mark env lang) body) (Inr ()) (final keeps env lang out)"
    by (rule runs_seqI, rule runs_persist, rule assms, rule console_free_settle)
      (simp_all add: final_def)
  then show ?thesis
    by (rule runs_seqI [OF runs_console _ console_free_final]) auto
qed

lemma runs_loaded_at:
  assumes ok: "ok_body env (base @ lang @ ''.json'') = Some dict"
    and K: "\<And>fb. runs {} (K dict fb) (Inr ()) (settle keeps env (Loaded (or_empty dict) (or_empty fb)))"
  shows "runs {}
     (js_bind (fetchJson env (base @ lang @ ''.json''))
        (\<lambda>dict. js_seq (console_out DEBUG ''[i18n] fetched'' (base @ lang @ ''.json'') None)
           (js_bind (if lang \<noteq> DEFAULT_LANG then fetch_fallback_at env base else js_return Null)
              (\<lambda>fallbackDict. K dict fallbackDict))))
     (Inr ()) (settle keeps env (outcome_at env base lang))"
proof -
  let ?dflt = "ok_body env (base @ DEFAULT_LANG @ ''.json'')"
  let ?fb = "if lang \<noteq> DEFAULT_LANG then (case ?dflt of None \<Rightarrow> Null | Some d \<Rightarrow> d) else Null"
  have fb: "runs {} (if lang \<noteq> DEFAULT_LANG then fetch_fallback_at env base else js_return Null)
              (Inr ?fb) (\<lambda>s. s)"
    by (simp add: runs_fetch_fallback_at runs_return)
  have out: "outcome_at env base lang = Loaded (or_empty dict) (or_empty ?fb)"
    by (simp add: outcome_at_def ok loaded_with_def or_empty_Null split: option.splits)
  have 1: "runs {} (js_bind (if lang \<noteq> DEFAULT_LANG then fetch_fallback_at env base else js_return Null)
              (\<lambda>fallbackDict. K dict fallbackDict)) (Inr ()) (settle keeps env (outcome_at env base lang))"
    unfolding out
    by (rule runs_bindI, rule fb, rule K, rule console_free_settle) simp_all
  have 2: "runs {} (js_seq (console_out DEBUG ''[i18n] fetched'' (base @ lang @ ''.json'') None)
           (js_bind (if lang \<noteq> DEFAULT_LANG then fetch_fallback_at env base else js_return Null)
              (\<lambda>fallbackDict. K dict fallbackDict))) (Inr ()) (settle keeps env (outcome_at env base lang))"
    by (rule runs_seqI, rule runs_console, rule 1, rule console_free_settle) simp_all
  show ?thesis
    by (rule runs_bindI, rule runs_fetchJson_ok [OF ok], rule 2, rule console_free_settle) simp_all
qed

lemma runs_single_base:
  assumes K: "\<And>dict fb. runs {} (K dict fb) (Inr ())
                 (settle keeps env (Loaded (or_empty dict) (or_empty fb)))"
  shows "runs (if is_loaded (outcome_at env base lang) then {} else {ERROR})
     (js_try
        (js_bind (fetchJson env (base @ lang @ ''.json''))
           (\<lambda>dict. js_seq (console_out DEBUG ''[i18n] fetched'' (base @ lang @ ''.json'') None)
              (js_bind (if lang \<noteq> DEFAULT_LANG then fetch_fallback_at env base else js_return Null)
                 (\<lambda>fallbackDict. K dict fallbackDict))))
        (apply_default_at env base lang))
     (Inr ()) (settle keeps env (outcome_at env base lang))"
proof (cases "ok_body env (base @ lang @ ''.json'')")
  case None
  from runs_fetchJson_fail [OF None] obtain e
    where e: "runs {} (fetchJson env (base @ lang @ ''.json'')) (Inl e) (\<lambda>s. s)"
    by blast
  have out: "outcome_at env base lang = default_only (ok_body env (base @ DEFAULT_LANG @ ''.json'')) lang"
    by (simp add: outcome_at_def None)
  have nl: "\<not> is_loaded (outcome_at env base lang)"
    by (simp add: out default_only_def split: option.splits)
  show ?thesis
    unfolding out
    by (rule runs_try_catchI, rule runs_bind_throw [OF e], rule runs_apply_default_at,
        rule console_free_settle)
      (simp_all add: nl [unfolded out])
next
  case (Some dict)
  have l: "is_loaded (outcome_at env base lang)"
    by (simp add: outcome_at_def Some loaded_with_def)
  show ?thesis
    using runs_try_ok [OF runs_loaded_at [of env base lang dict K keeps, OF Some K]] l by simp
qed

lemma runs_setLang_fixed:
  "runs (if is_loaded (outcome_at env ''i18n/'' (normalize requested)) then {} else {ERROR})
     (setLang_fixed env requested) (Inr ())
     (final False env (normalize requested) (outcome_at env ''i18n/'' (normalize requested)))"
  unfolding setLang_fixed_def Let_def
proof (rule runs_start, rule runs_single_base)
  fix dict fb
  show "runs {} (js_seq (call_applyTranslations (or_empty dict) (or_empty fb))
                   (console_out DEBUG ''[i18n] translations applied for'' (normalize requested) None))
          (Inr ()) (settle False env (Loaded (or_empty dict) (or_empty fb)))"
    by (rule runs_seqI, rule runs_apply, rule runs_console, rule console_free_id) simp_all
qed


lemma runs_failing_path:
  "runs {ERROR}
     (js_seq (console_out ERROR ''[i18n] failed to load any language file for'' lang firstErr)
        (if lang \<noteq> DEFAULT_LANG then
           js_bind (apply_default env bases)
             (\<lambda>fallbackLoaded.
                if \<not> fallbackLoaded
                then console_out WARN ''[i18n] could not load any default translations'' [] None
                else js_return ())
         else js_return ()))
     (Inr ()) (settle keeps env (default_only (first_ok env (urls DEFAULT_LANG)) lang))"
proof -
  let ?out = "default_only (first_ok env (urls DEFAULT_LANG)) lang"
  have rest: "runs {}
        (if lang \<noteq> DEFAULT_LANG then
           js_bind (apply_default env bases)
             (\<lambda>fallbackLoaded.
                if \<not> fallbackLoaded
                then console_out WARN ''[i18n] could not load any default translations'' [] None
                else js_return ())
         else js_return ())
        (Inr ()) (settle keeps env ?out)"
  proof (cases "lang = DEFAULT_LANG")
    case True
    have "settle keeps env ?out = (\<lambda>s. s)"
      by (simp add: fun_eq_iff default_only_def True)
    then show ?thesis
      using True by (simp add: runs_return)
  next
    case False
    note ad = runs_apply_default [of env bases, folded urls_def]
    have "runs {} (js_bind (apply_default env bases)
             (\<lambda>fallbackLoaded.
                if \<not> fallbackLoaded
                then console_out WARN ''[i18n] could not load any default translations'' [] None
                else js_return ()))
          (Inr ()) (settle keeps env ?out)"
    proof (cases "first_ok env (urls DEFAULT_LANG)")
      case None
      show ?thesis
        by (rule runs_bindI, rule ad, simp only: None option.case not_False_eq_True if_True,
            rule runs_console, rule console_free_id)
          (simp_all add: None default_only_def False)
    next
      case (Some d)
      show ?thesis
        by (rule runs_bindI, rule ad, simp only: Some option.case not_True_eq_False if_False,
            rule runs_return, rule console_free_id)
          (simp_all add: Some default_only_def False)
    qed
    then show ?thesis
      using False by simp
  qed
  show ?thesis
    by (rule runs_seqI, rule runs_console, rule rest, rule console_free_settle) simp_all
qed

lemma runs_loaded_path:
  "runs {}
     (js_bind
        (if lang \<noteq> DEFAULT_LANG then
           js_bind (fetch_fallback env bases)
             (\<lambda>fallbackDict.
                js_seq
                  (if \<not> truthy fallbackDict
                   then console_out WARN ''[i18n] could not load fallback language'' [] None
                   else js_return ())
                  (js_return fallbackDict))
         else js_return Null)
        (\<lambda>fallbackDict. apply_and_expose env lang dict fallbackDict))
     (Inr ()) (settle True env (loaded_with dict (first_ok env (urls DEFAULT_LANG)) lang))"
proof -
  let ?dflt = "first_ok env (urls DEFAULT_LANG)"
  let ?fb = "if lang \<noteq> DEFAULT_LANG then (case ?dflt of None \<Rightarrow> Null | Some d \<Rightarrow> d) else Null"
  have warn: "runs {} (js_seq (if \<not> truthy v
                   then console_out WARN ''[i18n] could not load fallback language'' [] None
                   else js_return ()) (js_return v)) (Inr v) (\<lambda>s. s)" for v
  proof (cases "truthy v")
    case True
    then show ?thesis
      by (simp only: not_True_eq_False if_False)
        (rule runs_seqI, rule runs_return, rule runs_return, rule console_free_id, simp_all)
  next
    case False
    then show ?thesis
      by (simp only: not_False_eq_True if_True) (rule runs_log_return)
  qed
  have "runs {} (js_bind (fetch_fallback env bases)
             (\<lambda>fallbackDict.
                js_seq
                  (if \<not> truthy fallbackDict
                   then console_out WARN ''[i18n] could not load fallback language'' [] None
                   else js_return ())
                  (js_return fallbackDict)))
          (Inr (case ?dflt of None \<Rightarrow> Null | Some d \<Rightarrow> d)) (\<lambda>s. s)"
    by (rule runs_bindI, rule runs_fetch_fallback [of env bases, folded urls_def], rule warn,
        rule console_free_id) simp_all
  then have fb: "runs {}
        (if lang \<noteq> DEFAULT_LANG then
           js_bind (fetch_fallback env bases)
             (\<lambda>fallbackDict.
                js_seq
                  (if \<not> truthy fallbackDict
                   then console_out WARN ''[i18n] could not load fallback language'' [] None
                   else js_return ())
                  (js_return fallbackDict))
         else js_return Null) (Inr ?fb) (\<lambda>s. s)"
    by (simp add: runs_return)
  have out: "loaded_with dict ?dflt lang = Loaded (or_empty dict) (or_empty ?fb)"
    by (simp add: loaded_with_def or_empty_Null split: option.splits)
  have ex: "runs {} (apply_and_expose env lang dict ?fb) (Inr ())
              (settle True env (Loaded (or_empty dict) (or_empty ?fb)))"
  proof -
    have "settle True env (Loaded (or_empty dict) (or_empty ?fb)) =
          (\<lambda>s. keep_dict env (or_empty dict) (or_empty ?fb) (show_dict (or_empty dict) (or_empty ?fb) s))"
      by (simp add: fun_eq_iff)
    then show ?thesis
      by (simp only: runs_expose)
  qed
  show ?thesis
    unfolding out
    by (rule runs_bindI, rule fb, rule ex, rule console_free_settle) simp_all
qed

lemma runs_setLang:
  "runs (if is_loaded (outcome env (normalize requested)) then {} else {ERROR})
     (setLang env requested) (Inr ())
     (final True env (normalize requested) (outcome env (normalize requested)))"
proof -
  define lang where "lang = normalize requested"
  let ?dflt = "first_ok env (urls DEFAULT_LANG)"
  let ?dict = "case first_ok env (urls lang) of None \<Rightarrow> Null | Some d \<Rightarrow> d"
  from runs_fetch_dict [of env bases lang None, folded urls_def]
  obtain fe where fd: "runs {} (fetch_dict env bases lang None) (Inr (?dict, fe)) (\<lambda>s. s)"
    by blast
  have "runs (if is_loaded (outcome env lang) then {} else {ERROR})
     (setLang env requested) (Inr ()) (final True env lang (outcome env lang))"
  proof (cases "truthy ?dict")
    case True
    then have out: "outcome env lang = loaded_with ?dict ?dflt lang"
      by (auto simp: outcome_def split: option.splits)
    have l: "is_loaded (outcome env lang)"
      by (simp add: out loaded_with_def)
    show ?thesis
      unfolding setLang_def Let_def lang_def [symmetric] out
      by (rule runs_start, rule runs_bindI, rule fd,
          simp only: prod.case True not_True_eq_False if_False,
          rule runs_loaded_path, rule console_free_settle)
        (simp_all add: l [unfolded out])
  next
    case False
    then have out: "outcome env lang = default_only ?dflt lang"
      by (auto simp: outcome_def split: option.splits)
    have nl: "\<not> is_loaded (outcome env lang)"
      by (simp add: out default_only_def split: option.splits)
    show ?thesis
      unfolding setLang_def Let_def lang_def [symmetric] out
      by (rule runs_start, rule runs_bindI, rule fd,
          simp only: prod.case False not_False_eq_True if_True,
          rule runs_failing_path, rule console_free_settle)
        (simp_all add: nl [unfolded out])
  qed
  then show ?thesis
    by (simp add: lang_def)
qed

lemma runs_fst: "runs L m r F \<Longrightarrow> fst (m s) = r"
  unfolding runs_def by (metis fst_conv)

lemma runs_snd: "runs L m r F \<Longrightarrow> \<exists>c. L \<subseteq> fst ` set c \<and> snd (m s) = (F s)\<lparr>console := console s @ c\<rparr>"
  unfolding runs_def by (metis snd_conv)

lemma runs_fields:
  assumes "runs L m r F"
  shows "localStorage (snd (m s)) = localStorage (F s)"
    and "dom (snd (m s)) = dom (F s)"
    and "lastDict (snd (m s)) = lastDict (F s)"
    and "lastFallback (snd (m s)) = lastFallback (F s)"
    and "has_refresh (snd (m s)) = has_refresh (F s)"
    and "has_setLang (snd (m s)) = has_setLang (F s)"
    and "applied (snd (m s)) = applied (F s)"
  using runs_snd [OF assms, of s] by auto

lemma runs_logged:
  assumes "runs L m r F" and "console_free F" and "lv \<in> L"
  shows "lv \<in> fst ` set (drop (length (console s)) (console (snd (m s))))"
proof -
  from runs_snd [OF assms(1), of s] obtain c
    where "L \<subseteq> fst ` set c" "snd (m s) = (F s)\<lparr>console := console s @ c\<rparr>"
    by blast
  then show ?thesis
    using assms(3) by auto
qed

lemma applied_final: "applied (final keeps env lang out s) = applied s @ entries out"
  by (cases out) (simp_all add: final_def prepare_def show_dict_def keep_dict_def)

lemma dom_final:
  "dom (final keeps env lang out s) =
     (case out of
        NoDictionary \<Rightarrow> updateLangUi lang (dom s)
      | FallbackOnly d \<Rightarrow> applyTranslations d (Obj []) (updateLangUi lang (dom s))
      | Loaded d f \<Rightarrow> applyTranslations d f (updateLangUi lang (dom s)))"
  by (cases out) (simp_all add: final_def prepare_def show_dict_def keep_dict_def)

lemma localStorage_final:
  "localStorage (final keeps env lang out s) =
     (if setItem_throws env then localStorage s else AList.update STORAGE_KEY lang (localStorage s))"
  by (cases out) (simp_all add: final_def prepare_def show_dict_def keep_dict_def)

lemma first_ok_None: "(\<forall>u \<in> set us. ok_body env u = None) \<Longrightarrow> first_ok env us = None"
  by (induction us) simp_all

lemma normalize_supported: "requested \<in> SUPPORTED \<Longrightarrow> normalize requested = requested"
  by (simp add: normalize_def)

lemma normalize_unsupported: "requested \<notin> SUPPORTED \<Longrightarrow> normalize requested = DEFAULT_LANG"
  by (simp add: normalize_def)

lemma normalize_default: "normalize DEFAULT_LANG = DEFAULT_LANG"
  by (simp add: normalize_def)

lemma local_press: "local_cb (press lang) (press_el lang) (press_ops lang)"
  by (simp add: local_cb_def press_def press_el_def press_ops_def Let_def dom_write_SetAttr)

lemma updateLangUi_eq:
  "lang \<noteq> [] \<Longrightarrow>
     updateLangUi lang doc =
       doc\<lparr>html_lang := lang,
           elements := map (\<lambda>e. if getAttribute e ''data-set-lang'' = None then e else press_el lang e)
                         (elements doc),
           writes := writes doc @ [SetLang lang] @
             concat (map (\<lambda>el. press_ops lang el (elements doc ! el))
                       (querySelectorAll ''data-set-lang'' doc))\<rparr>"
proof -
  assume lang: "lang \<noteq> []"
  let ?doc1 = "doc\<lparr>html_lang := lang, writes := writes doc @ [SetLang lang]\<rparr>"
  have d1: "dom_write (SetLang lang) doc = ?doc1"
    by (simp add: dom_write_def)
  have q: "querySelectorAll ''data-set-lang'' ?doc1 = querySelectorAll ''data-set-lang'' doc"
    by (simp add: querySelectorAll_def)
  have els: "map (\<lambda>j. if j \<in> set (querySelectorAll ''data-set-lang'' doc)
                       then press_el lang (elements doc ! j) else elements doc ! j)
                 [0..<length (elements doc)] =
             map (\<lambda>e. if getAttribute e ''data-set-lang'' = None then e else press_el lang e)
                 (elements doc)"
    by (rule nth_equalityI) (auto simp: querySelectorAll_def)
  have "updateLangUi lang doc = forEach (querySelectorAll ''data-set-lang'' ?doc1) (press lang) ?doc1"
    using lang by (simp add: updateLangUi_def Let_def d1)
  also have "\<dots> = ?doc1\<lparr>elements := map (\<lambda>j. if j \<in> set (querySelectorAll ''data-set-lang'' ?doc1)
                       then press_el lang (elements ?doc1 ! j) else elements ?doc1 ! j)
                 [0..<length (elements ?doc1)],
               writes := writes ?doc1 @ concat (map (\<lambda>el. press_ops lang el (elements ?doc1 ! el))
                       (querySelectorAll ''data-set-lang'' ?doc1))\<rparr>"
    by (rule forEach_local [OF local_press distinct_querySelectorAll querySelectorAll_range])
  also have "\<dots> = doc\<lparr>html_lang := lang,
           elements := map (\<lambda>e. if getAttribute e ''data-set-lang'' = None then e else press_el lang e)
                         (elements doc),
           writes := writes doc @ [SetLang lang] @
             concat (map (\<lambda>el. press_ops lang el (elements doc ! el))
                       (querySelectorAll ''data-set-lang'' doc))\<rparr>"
    unfolding q by (simp add: els cong: if_cong)
  finally show ?thesis .
qed

lemma html_lang_updateLangUi: "lang \<noteq> [] \<Longrightarrow> html_lang (updateLangUi lang doc) = lang"
  by (simp add: updateLangUi_eq)

lemma title_updateLangUi: "title (updateLangUi lang doc) = title doc"
  by (cases "lang = []") (simp_all add: updateLangUi_eq, simp add: updateLangUi_def)

lemma length_updateLangUi: "length (elements (updateLangUi lang doc)) = length (elements doc)"
  by (cases "lang = []") (simp_all add: updateLangUi_eq, simp add: updateLangUi_def)

lemma content_press_el: "content (press_el lang e) = content e"
  by (simp add: press_el_def setAttribute_def)

lemma content_updateLangUi: "map content (elements (updateLangUi lang doc)) = map content (elements doc)"
  by (cases "lang = []") (simp_all add: updateLangUi_eq content_press_el, simp add: updateLangUi_def)

lemma getAttribute_updateLangUi:
  "el < length (elements doc) \<Longrightarrow> a \<noteq> ''aria-pressed'' \<Longrightarrow>
     getAttribute (elements (updateLangUi lang doc) ! el) a = getAttribute (elements doc ! el) a"
  by (cases "lang = []")
    (simp_all add: updateLangUi_eq press_el_def getAttribute_setAttribute, simp add: updateLangUi_def)

lemma html_lang_apply_title: "html_lang (apply_title d f doc) = html_lang doc"
  by (simp add: apply_title_def dom_write_def split: option.splits)

lemma html_lang_apply_description: "html_lang (apply_description d f doc) = html_lang doc"
  by (simp add: apply_description_def dom_write_def modify_element_def split: option.splits)

lemma html_lang_applyTranslations: "html_lang (applyTranslations d f doc) = html_lang doc"
  by (simp add: applyTranslations_passes Let_def html_lang_apply_description html_lang_apply_title)

lemma normalize_not_Nil: "normalize requested \<noteq> []"
  by (auto simp: normalize_def SUPPORTED_def DEFAULT_LANG_def)

lemma html_lang_final: "html_lang (dom (final keeps env lang out s)) = lang" if "lang \<noteq> []"
  using that by (cases out) (simp_all add: dom_final html_lang_applyTranslations html_lang_updateLangUi)

















lemma dom_failed_offline: "dom (snd (setLang offline ''it'' start)) = updateLangUi ''it'' page"
proof -
  have n: "normalize ''it'' = ''it''"
    by (simp add: normalize_def SUPPORTED_def)
  have o: "outcome offline ''it'' = NoDictionary"
    by code_simp
  have "dom (snd (setLang offline ''it'' start)) = updateLangUi ''it'' (dom start)"
    using runs_fields(2) [OF runs_setLang, of offline "''it''" start]
    by (simp add: n o dom_final)
  then show ?thesis
    by (simp add: start_def)
qed


section \<open>What a switch of the language does\<close>

text \<open>
  C2. When every fetch of the requested language's dictionary fails, the requested language
  being a supported one other than the default, and a fetch of the default language's
  dictionary succeeds, \<^verbatim>\<open>applyTranslations\<close> is called once, with the default dictionary
  as the primary (\<^verbatim>\<open>baseDict || {}\<close>, which is the dictionary itself unless the file holds a
  falsy value) and the empty object as the fallback, on the page as \<open>updateLangUi\<close> left
  it. This holds for \<^verbatim>\<open>src/i18n.js\<close>, where the default dictionary is the first one found
  under the bases, and for the first script of \<^verbatim>\<open>part_000\<close>.
\<close>

theorem default_applied_when_primary_fails:
  "(requested \<in> SUPPORTED \<and> requested \<noteq> DEFAULT_LANG \<and>
    (\<forall>u \<in> set (urls requested). ok_body env u = None) \<and>
    first_ok env (urls DEFAULT_LANG) = Some d \<longrightarrow>
      applied (snd (setLang env requested s)) = applied s @ [(or_empty d, Obj [])] \<and>
      dom (snd (setLang env requested s)) =
        applyTranslations (or_empty d) (Obj []) (updateLangUi requested (dom s))) \<and>
   (requested \<in> SUPPORTED \<and> requested \<noteq> DEFAULT_LANG \<and>
    ok_body env (''i18n/'' @ requested @ ''.json'') = None \<and>
    ok_body env (''i18n/'' @ DEFAULT_LANG @ ''.json'') = Some d \<longrightarrow>
      applied (snd (setLang_fixed env requested s)) = applied s @ [(or_empty d, Obj [])] \<and>
      dom (snd (setLang_fixed env requested s)) =
        applyTranslations (or_empty d) (Obj []) (updateLangUi requested (dom s)))"
proof (intro conjI impI)
  assume a: "requested \<in> SUPPORTED \<and> requested \<noteq> DEFAULT_LANG \<and>
    (\<forall>u \<in> set (urls requested). ok_body env u = None) \<and>
    first_ok env (urls DEFAULT_LANG) = Some d"
  then have out: "outcome env (normalize requested) = FallbackOnly (or_empty d)"
    by (simp add: normalize_supported outcome_def first_ok_None default_only_def)
  show "applied (snd (setLang env requested s)) = applied s @ [(or_empty d, Obj [])]"
    by (simp add: runs_fields [OF runs_setLang] applied_final out)
  show "dom (snd (setLang env requested s)) =
        applyTranslations (or_empty d) (Obj []) (updateLangUi requested (dom s))"
    using a out by (simp add: runs_fields [OF runs_setLang] dom_final normalize_supported)
next
  assume a: "requested \<in> SUPPORTED \<and> requested \<noteq> DEFAULT_LANG \<and>
    ok_body env (''i18n/'' @ requested @ ''.json'') = None \<and>
    ok_body env (''i18n/'' @ DEFAULT_LANG @ ''.json'') = Some d"
  then have out: "outcome_at env ''i18n/'' (normalize requested) = FallbackOnly (or_empty d)"
    by (simp add: normalize_supported outcome_at_def default_only_def)
  show "applied (snd (setLang_fixed env requested s)) = applied s @ [(or_empty d, Obj [])]"
    by (simp add: runs_fields [OF runs_setLang_fixed] applied_final out)
  show "dom (snd (setLang_fixed env requested s)) =
        applyTranslations (or_empty d) (Obj []) (updateLangUi requested (dom s))"
    using a out by (simp add: runs_fields [OF runs_setLang_fixed] dom_final normalize_supported)
qed

theorem default_applied_when_primary_fails_witness:
  "''it'' \<in> SUPPORTED \<and> ''it'' \<noteq> DEFAULT_LANG \<and>
   list_all (\<lambda>u. ok_body only_hu u = None) (urls ''it'') \<and>
   first_ok only_hu (urls DEFAULT_LANG) = Some dict_hu \<and>
   ok_body only_hu (''i18n/'' @ ''it'' @ ''.json'') = None \<and>
   ok_body only_hu (''i18n/'' @ DEFAULT_LANG @ ''.json'') = Some dict_hu \<and>
   applied (snd (setLang only_hu ''it'' start)) = [(dict_hu, Obj [])] \<and>
   applied (snd (setLang_fixed only_hu ''it'' start)) = [(dict_hu, Obj [])]"
proof -
  have h1: "''it'' \<in> SUPPORTED"
    by (simp add: SUPPORTED_def)
  have h2: "''it'' \<noteq> DEFAULT_LANG"
    by (simp add: DEFAULT_LANG_def)
  have h3: "list_all (\<lambda>u. ok_body only_hu u = None) (urls ''it'')"
    by code_simp
  have h4: "first_ok only_hu (urls DEFAULT_LANG) = Some dict_hu"
    by code_simp
  have h5: "ok_body only_hu (''i18n/'' @ ''it'' @ ''.json'') = None"
    by code_simp
  have h6: "ok_body only_hu (''i18n/'' @ DEFAULT_LANG @ ''.json'') = Some dict_hu"
    by code_simp
  have e: "or_empty dict_hu = dict_hu"
    by (simp add: or_empty_def dict_hu_def)
  have s: "applied start = []"
    by (simp add: start_def)
  show ?thesis
    using default_applied_when_primary_fails [of "''it''" only_hu dict_hu start] h1 h2 h3 h4 h5 h6
    by (simp add: list_all_iff e s)
qed



text \<open>
  C4. For a code that is not supported, \<^verbatim>\<open>setLang\<close> of \<^verbatim>\<open>src/i18n.js\<close> goes on with the
  default code: the stored preference is the default code (when the storage takes it), the
  language attribute of the document is the default code, the dictionary looked for and
  applied is the default language's (with no fallback, the language being the default),
  and the call leaves the state that a call with the default code leaves, the console
  apart: its first line names the code that was asked for.
\<close>

theorem unsupported_code_switches_to_default:
  "requested \<notin> SUPPORTED \<longrightarrow>
     localStorage (snd (setLang env requested s)) =
       (if setItem_throws env then localStorage s
        else AList.update STORAGE_KEY DEFAULT_LANG (localStorage s)) \<and>
     html_lang (dom (snd (setLang env requested s))) = DEFAULT_LANG \<and>
     applied (snd (setLang env requested s)) =
       applied s @ (case first_ok env (urls DEFAULT_LANG) of
                      None \<Rightarrow> []
                    | Some d \<Rightarrow> if truthy d then [(d, Obj [])] else []) \<and>
     (\<exists>c. snd (setLang env requested s) = (snd (setLang env DEFAULT_LANG s))\<lparr>console := c\<rparr>)"
proof
  assume u: "requested \<notin> SUPPORTED"
  let ?out = "outcome env DEFAULT_LANG"
  note n = normalize_unsupported [OF u]
  note r = runs_setLang [of env requested, unfolded n]
  note r' = runs_setLang [of env DEFAULT_LANG, unfolded normalize_default]
  have e: "entries ?out = (case first_ok env (urls DEFAULT_LANG) of
                      None \<Rightarrow> []
                    | Some d \<Rightarrow> if truthy d then [(d, Obj [])] else [])"
    by (simp add: outcome_def default_only_def loaded_with_def or_empty_def split: option.splits)
  have d: "DEFAULT_LANG \<noteq> []"
    by (simp add: DEFAULT_LANG_def)
  from runs_snd [OF r, of s] obtain c
    where c: "snd (setLang env requested s) = (final True env DEFAULT_LANG ?out s)\<lparr>console := console s @ c\<rparr>"
    by blast
  from runs_snd [OF r', of s] obtain c'
    where c': "snd (setLang env DEFAULT_LANG s) = (final True env DEFAULT_LANG ?out s)\<lparr>console := console s @ c'\<rparr>"
    by blast
  have same: "snd (setLang env requested s) = (snd (setLang env DEFAULT_LANG s))\<lparr>console := console s @ c\<rparr>"
    by (simp add: c c')
  show "localStorage (snd (setLang env requested s)) =
       (if setItem_throws env then localStorage s
        else AList.update STORAGE_KEY DEFAULT_LANG (localStorage s)) \<and>
     html_lang (dom (snd (setLang env requested s))) = DEFAULT_LANG \<and>
     applied (snd (setLang env requested s)) =
       applied s @ (case first_ok env (urls DEFAULT_LANG) of
                      None \<Rightarrow> []
                    | Some d \<Rightarrow> if truthy d then [(d, Obj [])] else []) \<and>
     (\<exists>c. snd (setLang env requested s) = (snd (setLang env DEFAULT_LANG s))\<lparr>console := c\<rparr>)"
  proof (intro conjI)
    show "localStorage (snd (setLang env requested s)) =
       (if setItem_throws env then localStorage s
        else AList.update STORAGE_KEY DEFAULT_LANG (localStorage s))"
      by (simp only: runs_fields [OF r] localStorage_final)
    show "html_lang (dom (snd (setLang env requested s))) = DEFAULT_LANG"
      by (simp only: runs_fields [OF r] html_lang_final [OF d])
    show "applied (snd (setLang env requested s)) =
       applied s @ (case first_ok env (urls DEFAULT_LANG) of
                      None \<Rightarrow> []
                    | Some d \<Rightarrow> if truthy d then [(d, Obj [])] else [])"
      by (simp only: runs_fields [OF r] applied_final e)
    show "\<exists>c. snd (setLang env requested s) = (snd (setLang env DEFAULT_LANG s))\<lparr>console := c\<rparr>"
      using same by blast
  qed
qed

theorem unsupported_code_switches_to_default_witness:
  "''fr'' \<notin> SUPPORTED \<and>
   localStorage (snd (setLang only_hu ''fr'' start)) = [(''lang'', ''hu'')] \<and>
   html_lang (dom (snd (setLang only_hu ''fr'' start))) = ''hu'' \<and>
   applied (snd (setLang only_hu ''fr'' start)) = [(dict_hu, Obj [])]"
proof -
  have h: "''fr'' \<notin> SUPPORTED"
    by (simp add: SUPPORTED_def)
  have f: "first_ok only_hu (urls ''hu'') = Some dict_hu"
    by code_simp
  have t: "truthy dict_hu"
    by (simp add: dict_hu_def)
  have e: "\<not> setItem_throws only_hu"
    by (simp add: only_hu_def)
  have s: "localStorage start = []" "applied start = []"
    by (simp_all add: start_def)
  show ?thesis
    using unsupported_code_switches_to_default [of "''fr''" only_hu start] h
    by (simp add: f t e s STORAGE_KEY_def DEFAULT_LANG_def)
qed

text \<open>
  C5. \<^verbatim>\<open>getInitialLang\<close> returns the persisted preference when there is one and it is
  supported, otherwise the declared language of the document when it is supported,
  otherwise the default code; a read of the storage that throws counts as no preference.
  It changes nothing.
\<close>

theorem initial_language_precedence:
  "getInitialLang env s =
     (Inr (resolveInitialLanguage
             (if getItem_throws env then None else map_of (localStorage s) STORAGE_KEY)
             (html_lang (dom s))),
      s)"
  by (auto simp: getInitialLang_def resolveInitialLanguage_def getItem_def js_bind_def js_try_def
      js_throw_def js_return_def js_get_def SUPPORTED_def split: option.splits)

theorem initial_language_precedence_witness:
  "getInitialLang offline start = (Inr ''hu'', start) \<and>
   fst (getInitialLang offline (start\<lparr>localStorage := [(''lang'', ''it'')]\<rparr>)) = Inr ''it'' \<and>
   fst (getInitialLang (offline\<lparr>getItem_throws := True\<rparr>)
          (start\<lparr>localStorage := [(''lang'', ''it'')]\<rparr>)) = Inr ''hu''"
  using initial_language_precedence [of offline start]
    initial_language_precedence [of offline "start\<lparr>localStorage := [(''lang'', ''it'')]\<rparr>"]
    initial_language_precedence [of "offline\<lparr>getItem_throws := True\<rparr>"
      "start\<lparr>localStorage := [(''lang'', ''it'')]\<rparr>"]
  by (simp add: resolveInitialLanguage_def offline_def start_def page_def STORAGE_KEY_def
      SUPPORTED_def DEFAULT_LANG_def)

text \<open>
  C7, as the claim states it, would leave the whole document as it was when the switch
  fails. The script marks the language before it fetches: with every fetch failing, a
  switch to \<^verbatim>\<open>it\<close> on a page declared \<^verbatim>\<open>hu\<close> leaves the language attribute at \<^verbatim>\<open>it\<close>
  and the Italian switch control pressed.
\<close>

theorem failed_switch_changes_page_counterexample:
  "first_ok offline (urls ''it'') = None \<and> first_ok offline (urls DEFAULT_LANG) = None \<and>
   html_lang (dom start) = ''hu'' \<and>
   html_lang (dom (snd (setLang offline ''it'' start))) = ''it'' \<and>
   getAttribute (elements (dom start) ! 6) ''aria-pressed'' = None \<and>
   getAttribute (elements (dom (snd (setLang offline ''it'' start))) ! 6) ''aria-pressed'' = Some ''true''"
  unfolding dom_failed_offline by code_simp

text \<open>
  C7, amended: when every fetch of the requested language's dictionary and of the default
  language's dictionary fails, \<^verbatim>\<open>setLang\<close> returns normally, an error line is written to
  the console, no dictionary is applied, and the document is the one \<open>updateLangUi\<close>
  leaves: the title, the content of every element and every attribute other than
  \<^verbatim>\<open>aria-pressed\<close> are as before; the language attribute of the document and
  \<^verbatim>\<open>aria-pressed\<close> of the switch controls show the requested language.
\<close>

theorem failed_switch_marks_language:
  "first_ok env (urls (normalize requested)) = None \<and> first_ok env (urls DEFAULT_LANG) = None \<longrightarrow>
     fst (setLang env requested s) = Inr () \<and>
     ERROR \<in> fst ` set (drop (length (console s)) (console (snd (setLang env requested s)))) \<and>
     applied (snd (setLang env requested s)) = applied s \<and>
     dom (snd (setLang env requested s)) = updateLangUi (normalize requested) (dom s) \<and>
     title (dom (snd (setLang env requested s))) = title (dom s) \<and>
     map content (elements (dom (snd (setLang env requested s)))) = map content (elements (dom s)) \<and>
     (el < length (elements (dom s)) \<and> a \<noteq> ''aria-pressed'' \<longrightarrow>
        getAttribute (elements (dom (snd (setLang env requested s))) ! el) a =
        getAttribute (elements (dom s) ! el) a)"
proof
  assume a: "first_ok env (urls (normalize requested)) = None \<and> first_ok env (urls DEFAULT_LANG) = None"
  then have out: "outcome env (normalize requested) = NoDictionary"
    by (simp add: outcome_def default_only_def)
  note r = runs_setLang [of env requested, unfolded out]
  have r': "runs {ERROR} (setLang env requested) (Inr ()) (final True env (normalize requested) NoDictionary)"
    using r by simp
  have d: "dom (snd (setLang env requested s)) = updateLangUi (normalize requested) (dom s)"
    by (simp add: runs_fields [OF r'] dom_final)
  show "fst (setLang env requested s) = Inr () \<and>
     ERROR \<in> fst ` set (drop (length (console s)) (console (snd (setLang env requested s)))) \<and>
     applied (snd (setLang env requested s)) = applied s \<and>
     dom (snd (setLang env requested s)) = updateLangUi (normalize requested) (dom s) \<and>
     title (dom (snd (setLang env requested s))) = title (dom s) \<and>
     map content (elements (dom (snd (setLang env requested s)))) = map content (elements (dom s)) \<and>
     (el < length (elements (dom s)) \<and> a \<noteq> ''aria-pressed'' \<longrightarrow>
        getAttribute (elements (dom (snd (setLang env requested s))) ! el) a =
        getAttribute (elements (dom s) ! el) a)"
    using runs_logged [OF r' console_free_final, of ERROR s]
    by (simp add: runs_fst [OF r'] runs_fields(7) [OF r'] applied_final d title_updateLangUi
        content_updateLangUi getAttribute_updateLangUi)
qed

theorem failed_switch_marks_language_witness:
  "first_ok offline (urls (normalize ''it'')) = None \<and>
   first_ok offline (urls DEFAULT_LANG) = None \<and>
   fst (setLang offline ''it'' start) = Inr () \<and>
   ERROR \<in> fst ` set (console (snd (setLang offline ''it'' start))) \<and>
   applied (snd (setLang offline ''it'' start)) = [] \<and>
   title (dom (snd (setLang offline ''it'' start))) = ''SZTE'' \<and>
   4 < length (elements (dom start)) \<and>
   getAttribute (elements (dom (snd (setLang offline ''it'' start))) ! 4) ''data-i18n'' =
     Some ''no.such.key''"
proof -
  have h1: "first_ok offline (urls (normalize ''it'')) = None"
    by code_simp
  have h2: "first_ok offline (urls DEFAULT_LANG) = None"
    by code_simp
  have h3: "4 < length (elements (dom start))"
    by code_simp
  have h4: "getAttribute (elements (dom start) ! 4) ''data-i18n'' = Some ''no.such.key''"
    by code_simp
  have h5: "title (dom start) = ''SZTE''"
    by code_simp
  have h6: "console start = []" "applied start = []"
    by (simp_all add: start_def)
  show ?thesis
    using failed_switch_marks_language [of offline "''it''" start 4 "''data-i18n''"] h1 h2 h3
    by (simp add: h4 h5 h6 title_updateLangUi getAttribute_updateLangUi)
qed



end
